theory Spec2Isabelle
  imports Main "HOL-Library.Word"
begin

section \<open>Identifier parsing and backend resolution of the SQL proxy handler\<close>

text \<open>
  A shallow embedding of \<^verbatim>\<open>pkg/ccl/sqlproxyccl/proxy_handler.go\<close>: the functions
  \<^verbatim>\<open>parseDatabaseParam\<close>, \<^verbatim>\<open>parseOptionsParam\<close>,
  \<^verbatim>\<open>clusterNameAndTenantFromParams\<close>, \<^verbatim>\<open>outgoingAddress\<close> and the step
  of \<^verbatim>\<open>handle\<close> that calls the parser and forwards the remote address.

  Go strings are byte sequences, so a Go \<^verbatim>\<open>string\<close> is a HOL \<^typ>\<open>string\<close> (a list
  of 8-bit characters). A Go \<^verbatim>\<open>uint64\<close> is a \<^typ>\<open>64 word\<close>. A Go function that
  returns \<^verbatim>\<open>(..., error)\<close> returns a tuple whose last component is an
  \<open>error option\<close>, \<open>None\<close> being \<^verbatim>\<open>nil\<close>.
\<close>

subsection \<open>Errors with hints\<close>

text \<open>
  \<^verbatim>\<open>errors.New\<close> / \<^verbatim>\<open>errors.Errorf\<close> build an error from its message;
  \<^verbatim>\<open>errors.WithHint\<close> / \<^verbatim>\<open>errors.WithHintf\<close> attach a user-facing hint. The
  hints are kept in the order in which the code attaches them.
\<close>

record error =
  message :: string
  hints :: "string list"

definition errors_New :: "string \<Rightarrow> error" where
  "errors_New msg = \<lparr>message = msg, hints = []\<rparr>"

definition WithHint :: "error \<Rightarrow> string \<Rightarrow> error" where
  "WithHint err hint = err\<lparr>hints := hints err @ [hint]\<rparr>"

subsection \<open>The Go library functions the parser calls\<close>

text \<open>\<^verbatim>\<open>strings.HasPrefix(s, p)\<close>.\<close>

definition HasPrefix :: "string \<Rightarrow> string \<Rightarrow> bool" where
  "HasPrefix s p = (take (length p) s = p)"

text \<open>
  \<^verbatim>\<open>strings.Split(s, sep)\<close> for a one-byte separator (the code calls it with
  \<^verbatim>\<open>"."\<close>): the substrings between the separators, so \<^verbatim>\<open>n\<close> separators give
  \<^verbatim>\<open>n + 1\<close> parts and the empty string gives one empty part.
\<close>

fun Split :: "string \<Rightarrow> char \<Rightarrow> string list" where
  "Split [] sep = [[]]"
| "Split (c # cs) sep =
     (if c = sep then [] # Split cs sep
      else (case Split cs sep of
              [] \<Rightarrow> [[c]]
            | part # parts \<Rightarrow> (c # part) # parts))"

text \<open>
  \<^verbatim>\<open>strings.LastIndex(s, sep)\<close> for a one-byte separator (the code calls it with
  \<^verbatim>\<open>clusterTenantSep\<close>): the index of the last occurrence, or \<open>-1\<close>.
\<close>

fun LastIndex :: "string \<Rightarrow> char \<Rightarrow> int" where
  "LastIndex [] sep = - 1"
| "LastIndex (c # cs) sep =
     (let r = LastIndex cs sep
      in if 0 \<le> r then r + 1 else if c = sep then 0 else - 1)"

text \<open>
  \<^verbatim>\<open>strings.ReplaceAll(s, old, new)\<close>: the non-overlapping occurrences of
  \<^verbatim>\<open>old\<close>, found from the left, are replaced by \<^verbatim>\<open>new\<close>. The code never passes
  an empty \<^verbatim>\<open>old\<close> (Go would insert \<^verbatim>\<open>new\<close> around every rune there); the model
  returns \<^verbatim>\<open>s\<close> in that case.
\<close>

function ReplaceAll :: "string \<Rightarrow> string \<Rightarrow> string \<Rightarrow> string" where
  "ReplaceAll s old new =
     (if old = [] \<or> s = [] then s
      else if HasPrefix s old then new @ ReplaceAll (drop (length old) s) old new
      else hd s # ReplaceAll (tl s) old new)"
  by pat_completeness auto
termination
  by (relation "measure (\<lambda>(s, old, new). length s)") auto

declare ReplaceAll.simps [simp del]

text \<open>
  \<^verbatim>\<open>strings.TrimSpace(s)\<close> removes the leading and the trailing white space, as
  Unicode defines it (\<^verbatim>\<open>unicode.IsSpace\<close>), reading the string as UTF-8. The white
  space runes are the six of ASCII, U+0085, U+00A0, U+1680, U+2000 to U+200A, U+2028,
  U+2029, U+202F, U+205F and U+3000; \<open>spaceRune\<close> lists their UTF-8 encodings. A
  byte that starts no valid encoding decodes to U+FFFD of width one, which is no space.
\<close>

definition asciiSpace :: "char \<Rightarrow> bool" where
  "asciiSpace c = (c = CHR 0x09 \<or> c = CHR 0x0A \<or> c = CHR 0x0B \<or> c = CHR 0x0C
     \<or> c = CHR 0x0D \<or> c = CHR 0x20)"

definition spaceRune :: "string \<Rightarrow> bool" where
  "spaceRune bs =
     (case bs of
        [a] \<Rightarrow> asciiSpace a
      | [a, b] \<Rightarrow> a = CHR 0xC2 \<and> (b = CHR 0x85 \<or> b = CHR 0xA0)
      | [a, b, c] \<Rightarrow>
          (a = CHR 0xE1 \<and> b = CHR 0x9A \<and> c = CHR 0x80)
          \<or> (a = CHR 0xE2 \<and> b = CHR 0x80 \<and>
              ((0x80 \<le> (of_char c :: int) \<and> (of_char c :: int) \<le> 0x8A)
               \<or> c = CHR 0xA8 \<or> c = CHR 0xA9 \<or> c = CHR 0xAF))
          \<or> (a = CHR 0xE2 \<and> b = CHR 0x81 \<and> c = CHR 0x9F)
          \<or> (a = CHR 0xE3 \<and> b = CHR 0x80 \<and> c = CHR 0x80)
      | _ \<Rightarrow> False)"

text \<open>The width of the white space rune at the start of the string, \<open>0\<close> if there is none.\<close>

definition leadingSpace :: "string \<Rightarrow> nat" where
  "leadingSpace s =
     (if 1 \<le> length s \<and> spaceRune (take 1 s) then 1
      else if 2 \<le> length s \<and> spaceRune (take 2 s) then 2
      else if 3 \<le> length s \<and> spaceRune (take 3 s) then 3
      else 0)"

text \<open>The width of the white space rune at the end of the string, \<open>0\<close> if there is none.\<close>

definition trailingSpace :: "string \<Rightarrow> nat" where
  "trailingSpace s =
     (if 1 \<le> length s \<and> spaceRune (drop (length s - 1) s) then 1
      else if 2 \<le> length s \<and> spaceRune (drop (length s - 2) s) then 2
      else if 3 \<le> length s \<and> spaceRune (drop (length s - 3) s) then 3
      else 0)"

function TrimLeftSpace :: "string \<Rightarrow> string" where
  "TrimLeftSpace s =
     (if leadingSpace s = 0 then s else TrimLeftSpace (drop (leadingSpace s) s))"
  by pat_completeness auto
termination
  by (relation "measure length") (auto simp: leadingSpace_def split: if_splits)

function TrimRightSpace :: "string \<Rightarrow> string" where
  "TrimRightSpace s =
     (if trailingSpace s = 0 then s
      else TrimRightSpace (take (length s - trailingSpace s) s))"
  by pat_completeness auto
termination
  by (relation "measure length") (auto simp: trailingSpace_def split: if_splits)

declare TrimLeftSpace.simps [simp del] TrimRightSpace.simps [simp del]

definition TrimSpace :: "string \<Rightarrow> string" where
  "TrimSpace s = TrimRightSpace (TrimLeftSpace s)"

text \<open>
  \<^verbatim>\<open>strconv.ParseUint(s, 10, 64)\<close>: a non-empty string of decimal digits (no sign, and
  in base 10 no underscore) whose value is below \<open>2^64\<close>; everything else is an error
  (\<^verbatim>\<open>ErrSyntax\<close> or \<^verbatim>\<open>ErrRange\<close>), here \<open>None\<close>.
\<close>

definition isDigit :: "char \<Rightarrow> bool" where
  "isDigit c = (48 \<le> (of_char c :: int) \<and> (of_char c :: int) \<le> 57)"

definition digitsValue :: "string \<Rightarrow> int" where
  "digitsValue s = foldl (\<lambda>n c. 10 * n + (of_char c - 48)) 0 s"

definition ParseUint :: "string \<Rightarrow> 64 word option" where
  "ParseUint s =
     (if s = [] then None
      else if \<not> list_all isDigit s then None
      else if 2 ^ 64 \<le> digitsValue s then None
      else Some (word_of_int (digitsValue s)))"

text \<open>\<^verbatim>\<open>%d\<close> of \<^verbatim>\<open>fmt\<close> for an unsigned integer: its decimal digits.\<close>

function formatInt :: "int \<Rightarrow> string" where
  "formatInt n =
     (if n < 10 then [char_of (48 + n)]
      else formatInt (n div 10) @ [char_of (48 + n mod 10)])"
  by pat_completeness auto
termination
  by (relation "measure nat") auto

declare formatInt.simps [simp del]

definition formatUint :: "64 word \<Rightarrow> string" where
  "formatUint w = formatInt (uint w)"

subsection \<open>The two regular expressions\<close>

text \<open>
  \<^verbatim>\<open>clusterNameRegex = ^[a-z0-9][a-z0-9-]{4,18}[a-z0-9]$\<close>. Go's \<^verbatim>\<open>$\<close> is the end
  of the text, and every character of the classes is one byte, so a string matches
  when it has 6 to 20 bytes, all of them lower-case letters, digits or dashes, the first
  and the last no dash.
\<close>

definition lowerAlnum :: "char \<Rightarrow> bool" where
  "lowerAlnum c =
     ((97 \<le> (of_char c :: int) \<and> (of_char c :: int) \<le> 122)
      \<or> (48 \<le> (of_char c :: int) \<and> (of_char c :: int) \<le> 57))"

definition clusterNameRegex_MatchString :: "string \<Rightarrow> bool" where
  "clusterNameRegex_MatchString s =
     (6 \<le> length s \<and> length s \<le> 20
      \<and> lowerAlnum (hd s)
      \<and> list_all (\<lambda>c. lowerAlnum c \<or> c = CHR ''-'') (butlast (tl s))
      \<and> lowerAlnum (last s))"

text \<open>
  \<^verbatim>\<open>clusterIdentifierLongOptionRE = (?:-c\s*|--)cluster=([\S]*)\<close>. In Go's syntax
  \<^verbatim>\<open>\s\<close> is one of tab, newline, form feed, carriage return and space, and
  \<^verbatim>\<open>\S\<close> is every other rune (an invalid byte included), so the match can be
  read off the bytes. \<open>matchHere\<close> is the match that starts at the first byte
  of the string, as the pair of the whole match and of the group: after
  \<^verbatim>\<open>-c\<close> the greedy \<^verbatim>\<open>\s*\<close> takes every white space byte (the \<^verbatim>\<open>c\<close> of
  \<^verbatim>\<open>cluster\<close> is none, so no shorter run can match), and the greedy group takes every
  byte up to the next white space. The two alternatives exclude each other on the
  second byte.
\<close>

definition reSpace :: "char \<Rightarrow> bool" where
  "reSpace c = (c = CHR 0x09 \<or> c = CHR 0x0A \<or> c = CHR 0x0C \<or> c = CHR 0x0D \<or> c = CHR 0x20)"

definition matchHere :: "string \<Rightarrow> (string \<times> string) option" where
  "matchHere s =
     (if HasPrefix s ''-c'' then
        (let ws = takeWhile reSpace (drop 2 s);
             r = dropWhile reSpace (drop 2 s)
         in if HasPrefix r ''cluster='' then
              (let g = takeWhile (\<lambda>c. \<not> reSpace c) (drop 8 r)
               in Some (''-c'' @ ws @ ''cluster='' @ g, g))
            else None)
      else if HasPrefix s ''--cluster='' then
        (let g = takeWhile (\<lambda>c. \<not> reSpace c) (drop 10 s)
         in Some (''--cluster='' @ g, g))
      else None)"

text \<open>
  The leftmost match: the text before it, the whole match, the group, and the text
  after it.
\<close>

fun findFirst :: "string \<Rightarrow> (string \<times> string \<times> string \<times> string) option" where
  "findFirst [] = None"
| "findFirst (c # cs) =
     (case matchHere (c # cs) of
        Some (m, g) \<Rightarrow> Some ([], m, g, drop (length m) (c # cs))
      | None \<Rightarrow>
          (case findFirst cs of
             None \<Rightarrow> None
           | Some (before, m, g, rest) \<Rightarrow> Some (c # before, m, g, rest)))"

text \<open>
  \<^verbatim>\<open>FindAllStringSubmatch(s, n)\<close> for \<^verbatim>\<open>n \<ge> 0\<close>: the first \<^verbatim>\<open>n\<close> successive
  matches, each as the list of the whole match and of the group. A match of this
  expression is never empty, so the search goes on right after it.
\<close>

fun FindAllStringSubmatch :: "string \<Rightarrow> nat \<Rightarrow> string list list" where
  "FindAllStringSubmatch s 0 = []"
| "FindAllStringSubmatch s (Suc n) =
     (case findFirst s of
        None \<Rightarrow> []
      | Some (before, m, g, rest) \<Rightarrow> [m, g] # FindAllStringSubmatch rest n)"

subsection \<open>The hints\<close>

definition clusterIdentifierHint :: string where
  \<open>clusterIdentifierHint =
     ''Ensure that your cluster identifier is uniquely specified using any of the\<newline>''
     @ ''following methods:\<newline>''
     @ ''\<newline>''
     @ ''1) Database parameter:\<newline>''
     @ ''   Use "<cluster identifier>.<database name>" as the database parameter.\<newline>''
     @ ''   (e.g. database="active-roach-42.defaultdb")\<newline>''
     @ ''\<newline>''
     @ ''2) Options parameter:\<newline>''
     @ ''   Use "--cluster=<cluster identifier>" as the options parameter.\<newline>''
     @ ''   (e.g. options="--cluster=active-roach-42")\<newline>''
     @ ''\<newline>''
     @ ''For more details, please visit our docs site at:\<newline>''
     @ [CHR 0x09]
     @ ''https://www.cockroachlabs.com/docs/cockroachcloud/connect-to-a-serverless-cluster\<newline>''\<close>

definition clusterNameFormHint :: string where
  "clusterNameFormHint =
     ''Cluster identifiers come in the form of <name>-<tenant ID> (e.g. lazy-roach-3).''"

definition missingTenantIDHint :: string where
  "missingTenantIDHint =
     ''Did you forget to include your tenant ID in the cluster identifier?''"

text \<open>\<^verbatim>\<open>'%s'\<close> in a format string: the argument between two apostrophes.\<close>

definition quoted :: "string \<Rightarrow> string" where
  "quoted s = [CHR 0x27] @ s @ [CHR 0x27]"

text \<open>
  \<^verbatim>\<open>errors.Errorf(format, arg)\<close> for a format that is literal text followed by
  \<^verbatim>\<open>'%s'\<close>, as in all of its calls here. The library (\<^verbatim>\<open>cockroachdb/errors\<close>, not
  among the sources) does not format as \<^verbatim>\<open>fmt.Sprintf\<close> does: it prints the
  argument through its redaction package, which encloses it in the markers U+2039 and
  U+203A and, so that the enclosure stays readable, replaces every such marker inside
  the argument by a question mark; the message of the error is that text without the
  enclosing markers. So the text of the format is kept as it is, and the argument is
  kept up to the markers it holds. \<open>escapeMarkers\<close> replaces the UTF-8 encodings of
  the two markers (E2 80 B9 and E2 80 BA), from the left. The hints are formatted by
  \<^verbatim>\<open>fmt.Sprintf\<close> and keep their arguments as they are.
\<close>

fun escapeMarkers :: "string \<Rightarrow> string" where
  "escapeMarkers (a # b # c # cs) =
     (if a = CHR 0xE2 \<and> b = CHR 0x80 \<and> (c = CHR 0xB9 \<or> c = CHR 0xBA)
      then CHR ''?'' # escapeMarkers cs
      else a # escapeMarkers (b # c # cs))"
| "escapeMarkers cs = cs"

definition errors_Errorf :: "string \<Rightarrow> string \<Rightarrow> error" where
  "errors_Errorf literal arg = errors_New (literal @ quoted (escapeMarkers arg))"

subsection \<open>The two parameter parsers\<close>

definition parseDatabaseParam :: "string \<Rightarrow> string \<times> string \<times> error option" where
  "parseDatabaseParam databaseParam =
     (if databaseParam = [] then ([], [], None)
      else
        (let parts = Split databaseParam (CHR ''.'')
         in if length parts \<le> 1 then ([], databaseParam, None)
            else
              (let clusterIdentifier = parts ! 0;
                   databaseName = parts ! 1
               in if length parts > 2 \<or> clusterIdentifier = [] \<or> databaseName = []
                  then ([], [], Some (errors_New ''invalid database param''))
                  else (clusterIdentifier, databaseName, None))))"

definition parseOptionsParam :: "string \<Rightarrow> string \<times> string \<times> error option" where
  "parseOptionsParam optionsParam =
     (let matches = FindAllStringSubmatch optionsParam 2
      in if length matches = 0 then ([], optionsParam, None)
         else if length matches > 1
         then ([], [], Some (errors_New ''multiple cluster flags provided''))
         else if length (matches ! 0) \<noteq> 2
         then ([], [], Some (errors_New ''internal server error''))
         else if length (matches ! 0 ! 1) = 0
         then ([], [], Some (errors_New ''invalid cluster flag''))
         else
           (let newOptionsParam = ReplaceAll optionsParam (matches ! 0 ! 0) [];
                newOptionsParam = TrimSpace newOptionsParam
            in (matches ! 0 ! 1, newOptionsParam, None)))"

subsection \<open>Startup messages in the heap\<close>

text \<open>
  The parser receives a pointer to a \<^verbatim>\<open>pgproto3.StartupMessage\<close>, whose
  \<^verbatim>\<open>Parameters\<close> field is a Go map, itself a reference. Whether the caller's message
  is written to depends on which objects are shared, so both kinds of object live in an
  explicit heap: the message structs by address, and the maps by reference.
  \<open>msg_next\<close> and \<open>map_next\<close> are the next addresses the allocator hands out.
\<close>

type_synonym msg_ptr = nat
type_synonym map_ref = nat

record StartupMessage =
  ProtocolVersion :: "32 word"
  Parameters :: "map_ref option"

record heap =
  msgs :: "msg_ptr \<rightharpoonup> StartupMessage"
  maps :: "map_ref \<rightharpoonup> (string \<rightharpoonup> string)"
  msg_next :: msg_ptr
  map_next :: map_ref

text \<open>
  Every allocated address lies below the allocator's next one, and the
  \<^verbatim>\<open>Parameters\<close> of every message is \<^verbatim>\<open>nil\<close> or an allocated map.
\<close>

definition wf_heap :: "heap \<Rightarrow> bool" where
  "wf_heap h =
     (dom (msgs h) \<subseteq> {..< msg_next h}
      \<and> dom (maps h) \<subseteq> {..< map_next h}
      \<and> (\<forall>m \<in> ran (msgs h).
            case Parameters m of None \<Rightarrow> True | Some a \<Rightarrow> a \<in> dom (maps h)))"

text \<open>
  The contents of the map behind a \<^verbatim>\<open>Parameters\<close> field. Reading a \<^verbatim>\<open>nil\<close> map
  (\<open>None\<close>) is reading an empty one. A reference the heap does not hold cannot
  arise in Go; it reads as empty too.
\<close>

definition paramsOf :: "heap \<Rightarrow> map_ref option \<Rightarrow> (string \<rightharpoonup> string)" where
  "paramsOf h r =
     (case r of
        None \<Rightarrow> Map.empty
      | Some a \<Rightarrow> (case maps h a of None \<Rightarrow> Map.empty | Some ps \<Rightarrow> ps))"

text \<open>\<^verbatim>\<open>m[key]\<close> on a \<^verbatim>\<open>map[string]string\<close>: the empty string for a missing key.\<close>

definition mapIndex :: "(string \<rightharpoonup> string) \<Rightarrow> string \<Rightarrow> string" where
  "mapIndex ps key = (case ps key of None \<Rightarrow> [] | Some v \<Rightarrow> v)"

text \<open>\<^verbatim>\<open>map[string]string{}\<close> with the given contents: a fresh reference.\<close>

definition newMap :: "heap \<Rightarrow> (string \<rightharpoonup> string) \<Rightarrow> heap \<times> map_ref" where
  "newMap h ps =
     (h\<lparr>maps := (maps h)(map_next h \<mapsto> ps), map_next := Suc (map_next h)\<rparr>, map_next h)"

text \<open>\<^verbatim>\<open>&pgproto3.StartupMessage{...}\<close>: a fresh address.\<close>

definition newMsg :: "heap \<Rightarrow> StartupMessage \<Rightarrow> heap \<times> msg_ptr" where
  "newMsg h m =
     (h\<lparr>msgs := (msgs h)(msg_next h \<mapsto> m), msg_next := Suc (msg_next h)\<rparr>, msg_next h)"

text \<open>
  \<^verbatim>\<open>m[key] = value\<close>: a write through the reference; on a \<^verbatim>\<open>nil\<close> map Go
  panics (\<open>None\<close>).
\<close>

definition mapAssign :: "heap \<Rightarrow> map_ref option \<Rightarrow> string \<Rightarrow> string \<Rightarrow> heap option" where
  "mapAssign h r key v =
     (case r of
        None \<Rightarrow> None
      | Some a \<Rightarrow> Some (h\<lparr>maps := (maps h)(a \<mapsto> (paramsOf h r)(key \<mapsto> v))\<rparr>))"

subsection \<open>Tenant identifiers\<close>

text \<open>
  Modelled from the spec: the package \<^verbatim>\<open>roachpb\<close> (the type \<^verbatim>\<open>TenantID\<close>, a
  wrapper of a \<^verbatim>\<open>uint64\<close>, with \<^verbatim>\<open>MinTenantID\<close>, \<^verbatim>\<open>MaxTenantID\<close> and
  \<^verbatim>\<open>MakeTenantID\<close>) is not among the sources. The spec has the tenant id as an
  unsigned 64-bit integer whose values 0 and 1 are reserved and whose minimum legal
  value is 2; the parser's own comment says that its check against
  \<^verbatim>\<open>MinTenantID\<close> fires for 0 and 1 only. \<^verbatim>\<open>MaxTenantID\<close> is the largest value.
  \<^verbatim>\<open>MakeTenantID\<close> wraps a legal value.
\<close>

type_synonym TenantID = "64 word"

definition MinTenantID :: TenantID where
  "MinTenantID = 2"

definition MaxTenantID :: TenantID where
  "MaxTenantID = - 1"

definition MakeTenantID :: "64 word \<Rightarrow> TenantID" where
  "MakeTenantID tenID = tenID"

definition clusterTenantSep :: char where
  "clusterTenantSep = CHR ''-''"

subsection \<open>The parser of the startup message\<close>

text \<open>
  The body of the loop over \<^verbatim>\<open>msg.Parameters\<close>: what the entry \<open>(key, value)\<close>
  writes to \<^verbatim>\<open>paramsOut\<close> under \<open>key\<close>, \<open>None\<close> when it writes nothing.
\<close>

definition paramsOutEntry :: "string \<Rightarrow> string \<Rightarrow> string \<Rightarrow> string \<Rightarrow> string option" where
  "paramsOutEntry databaseName newOptionsParam key value =
     (if key = ''database'' then Some databaseName
      else if key = ''options'' then
        (if newOptionsParam \<noteq> [] then Some newOptionsParam else None)
      else Some value)"

text \<open>
  The loop itself. A Go map holds each key once and every iteration writes under its
  own key only, so whatever the order of the iteration, \<^verbatim>\<open>paramsOut\<close> ends with
  the entry of each key of \<^verbatim>\<open>msg.Parameters\<close>.
\<close>

definition rangeParameters :: "string \<Rightarrow> string \<Rightarrow> (string \<rightharpoonup> string) \<Rightarrow> (string \<rightharpoonup> string)" where
  "rangeParameters databaseName newOptionsParam params =
     (\<lambda>key. case params key of
               None \<Rightarrow> None
             | Some value \<Rightarrow> paramsOutEntry databaseName newOptionsParam key value)"

text \<open>
  \<^verbatim>\<open>clusterNameAndTenantFromParams(ctx, msg)\<close>, on the heap \<open>h\<close>. The result is
  the heap after the call and the four values the Go function returns; \<open>None\<close> is
  the panic of Go when \<^verbatim>\<open>msg\<close> is \<^verbatim>\<open>nil\<close> (its caller rules that out). The calls
  of the logger are left out.
\<close>

definition clusterNameAndTenantFromParams ::
  "heap \<Rightarrow> msg_ptr \<Rightarrow> (heap \<times> msg_ptr \<times> string \<times> TenantID \<times> error option) option" where
  "clusterNameAndTenantFromParams h msg =
     (case msgs h msg of
        None \<Rightarrow> None
      | Some m \<Rightarrow>
     (let params = paramsOf h (Parameters m)
      in case parseDatabaseParam (mapIndex params ''database'') of
           (clusterIdentifierDB, databaseName, err) \<Rightarrow>
     (if err \<noteq> None then Some (h, msg, [], MaxTenantID, err)
      else case parseOptionsParam (mapIndex params ''options'') of
           (clusterIdentifierOpt, newOptionsParam, err) \<Rightarrow>
     (if err \<noteq> None then Some (h, msg, [], MaxTenantID, err)
      else if clusterIdentifierDB = [] \<and> clusterIdentifierOpt = [] then
        Some (h, msg, [], MaxTenantID,
          Some (WithHint (errors_New ''missing cluster identifier'') clusterIdentifierHint))
      else if clusterIdentifierDB \<noteq> [] \<and> clusterIdentifierOpt \<noteq> []
              \<and> clusterIdentifierDB \<noteq> clusterIdentifierOpt then
        Some (h, msg, [], MaxTenantID,
          Some (WithHint
            (WithHint (errors_New ''multiple different cluster identifiers provided'')
               (''Is '' @ quoted clusterIdentifierDB @ '' or '' @ quoted clusterIdentifierOpt
                @ '' the identifier for the cluster that you're connecting to?''))
            clusterIdentifierHint))
      else
     (let clusterIdentifierDB =
            (if clusterIdentifierDB = [] then clusterIdentifierOpt else clusterIdentifierDB);
          sepIdx = LastIndex clusterIdentifierDB clusterTenantSep
      in if sepIdx = - 1 \<or> sepIdx = int (length clusterIdentifierDB) - 1 then
           Some (h, msg, [], MaxTenantID,
             Some (WithHint
               (WithHint
                  (errors_Errorf ''invalid cluster identifier '' clusterIdentifierDB)
                  missingTenantIDHint)
               clusterNameFormHint))
         else
     (let clusterName = take (nat sepIdx) clusterIdentifierDB;
          tenantIDStr = drop (nat sepIdx + 1) clusterIdentifierDB
      in if \<not> clusterNameRegex_MatchString clusterName then
           Some (h, msg, [], MaxTenantID,
             Some (WithHint
               (WithHint
                  (errors_Errorf ''invalid cluster identifier '' clusterIdentifierDB)
                  (''Is '' @ quoted clusterName @ '' a valid cluster name?''))
               clusterNameFormHint))
         else case ParseUint tenantIDStr of
           None \<Rightarrow>
             Some (h, msg, [], MaxTenantID,
               Some (WithHint
                 (WithHint
                    (errors_Errorf ''invalid cluster identifier '' clusterIdentifierDB)
                    (''Is '' @ quoted tenantIDStr @ '' a valid tenant ID?''))
                 clusterNameFormHint))
         | Some tenID \<Rightarrow>
     (if tenID < MinTenantID then
        Some (h, msg, [], MaxTenantID,
          Some (WithHint
            (errors_Errorf ''invalid cluster identifier '' clusterIdentifierDB)
            (''Tenant ID '' @ formatUint tenID @ '' is invalid.'')))
      else
     (let (h1, paramsOut) = newMap h (rangeParameters databaseName newOptionsParam params);
          (h2, outMsg) =
            newMsg h1 \<lparr>ProtocolVersion = ProtocolVersion m, Parameters = Some paramsOut\<rparr>
      in Some (h2, outMsg, clusterName, MakeTenantID tenID, None)))))))))"

subsection \<open>The caller: the parsing step of \<open>handle\<close>\<close>

datatype errorCode =
  codeParamsRoutingFailed
| codeProxyRefusedConnection
| codeBackendDown
| codeIdleDisconnect
| codeExpiredClientConnection

record codeError =
  code :: errorCode
  err :: error

text \<open>
  The step of \<^verbatim>\<open>handle\<close> that follows the admission of the connection: it calls the
  parser on the client's message, leaves with a \<^verbatim>\<open>codeParamsRoutingFailed\<close> error
  when the parser fails, and otherwise writes the connection's remote address (the
  string of \<^verbatim>\<open>conn.RemoteAddr()\<close>, a parameter here) into the parameters of the
  message that the parser returned. The result is the heap and either the error that
  \<^verbatim>\<open>handle\<close> returns at this point or the values it goes on with; \<open>None\<close> is
  a panic.
\<close>

definition handle_parse ::
  "heap \<Rightarrow> msg_ptr \<Rightarrow> string
     \<Rightarrow> (heap \<times> (codeError + msg_ptr \<times> string \<times> TenantID)) option" where
  "handle_parse h msg remoteAddr =
     (case clusterNameAndTenantFromParams h msg of
        None \<Rightarrow> None
      | Some (h1, backendStartupMsg, clusterName, tenID, e) \<Rightarrow>
          (case e of
             Some e1 \<Rightarrow> Some (h1, Inl \<lparr>code = codeParamsRoutingFailed, err = e1\<rparr>)
           | None \<Rightarrow>
               (case msgs h1 backendStartupMsg of
                  None \<Rightarrow> None
                | Some m \<Rightarrow>
                    (case mapAssign h1 (Parameters m) ''crdb:remote_addr'' remoteAddr of
                       None \<Rightarrow> None
                     | Some h2 \<Rightarrow> Some (h2, Inr (backendStartupMsg, clusterName, tenID))))))"

subsection \<open>The address of the backend\<close>

text \<open>
  The gRPC status of an error, as \<^verbatim>\<open>status.Code\<close> reads it (an error that carries no
  status reads as \<^verbatim>\<open>Unknown\<close>), with its text.
\<close>

datatype codes = NotFound | Unavailable | Unknown | Internal

record statusError =
  statusCode :: codes
  statusText :: string

text \<open>
  The fields of the handler that \<^verbatim>\<open>outgoingAddress\<close> reads. The tenant directory
  is another package: \<open>directory\<close> is \<open>None\<close> for a \<^verbatim>\<open>nil\<close> directory and
  otherwise holds what its \<^verbatim>\<open>EnsureTenantAddr\<close> answers to a tenant id and a cluster
  name.
\<close>

record proxyHandler =
  RoutingRule :: string
  directory :: "(TenantID \<Rightarrow> string \<Rightarrow> string \<times> statusError option) option"

text \<open>
  \<^verbatim>\<open>outgoingAddress(ctx, name, tenID)\<close>. \<^verbatim>\<open>resolveTCPAddr\<close> is the hook of the
  source for the resolution by DNS: it answers \<open>None\<close> when the address resolves
  and the text of the error otherwise.
\<close>

definition outgoingAddress ::
  "(string \<Rightarrow> string option) \<Rightarrow> proxyHandler \<Rightarrow> string \<Rightarrow> TenantID
     \<Rightarrow> string \<times> statusError option" where
  "outgoingAddress resolveTCPAddr handler name tenID =
     (let oldRule =
            (let addr = ReplaceAll (RoutingRule handler) ''{{clusterName}}''
                          (name @ ''-'' @ formatUint tenID)
             in case resolveTCPAddr addr of
                  Some e \<Rightarrow> ([], Some \<lparr>statusCode = NotFound, statusText = e\<rparr>)
                | None \<Rightarrow> (addr, None))
      in case directory handler of
           None \<Rightarrow> oldRule
         | Some EnsureTenantAddr \<Rightarrow>
             (case EnsureTenantAddr tenID name of
                (addr, Some e) \<Rightarrow>
                  if statusCode e \<noteq> NotFound then ([], Some e) else oldRule
              | (addr, None) \<Rightarrow> (addr, None)))"

subsection \<open>Observations\<close>

text \<open>The parameters of the message at an address (empty when nothing is there).\<close>

definition msgParams :: "heap \<Rightarrow> msg_ptr \<Rightarrow> (string \<rightharpoonup> string)" where
  "msgParams h p =
     (case msgs h p of None \<Rightarrow> Map.empty | Some m \<Rightarrow> paramsOf h (Parameters m))"

text \<open>
  Of a result of the parser: the cluster name, the tenant id and the error it returns,
  and the parameters of the message it returns, read in the heap it leaves.
\<close>

definition returned ::
  "(heap \<times> msg_ptr \<times> string \<times> TenantID \<times> error option) option
     \<Rightarrow> (string \<times> TenantID \<times> error option) option" where
  "returned r =
     (case r of
        None \<Rightarrow> None
      | Some (h, out, clusterName, tenID, e) \<Rightarrow> Some (clusterName, tenID, e))"

definition returnedParams ::
  "(heap \<times> msg_ptr \<times> string \<times> TenantID \<times> error option) option
     \<Rightarrow> (string \<rightharpoonup> string)" where
  "returnedParams r =
     (case r of
        None \<Rightarrow> Map.empty
      | Some (h, out, clusterName, tenID, e) \<Rightarrow> msgParams h out)"

text \<open>The protocol version of the message at an address, and of the message returned.\<close>

definition msgVersion :: "heap \<Rightarrow> msg_ptr \<Rightarrow> 32 word option" where
  "msgVersion h p = (case msgs h p of None \<Rightarrow> None | Some m \<Rightarrow> Some (ProtocolVersion m))"

definition returnedVersion ::
  "(heap \<times> msg_ptr \<times> string \<times> TenantID \<times> error option) option \<Rightarrow> 32 word option" where
  "returnedVersion r =
     (case r of
        None \<Rightarrow> None
      | Some (h, out, clusterName, tenID, e) \<Rightarrow> msgVersion h out)"

text \<open>The parser called again, on the message it returned and in the heap it left.\<close>

definition reapply ::
  "(heap \<times> msg_ptr \<times> string \<times> TenantID \<times> error option) option
     \<Rightarrow> (heap \<times> msg_ptr \<times> string \<times> TenantID \<times> error option) option" where
  "reapply r =
     (case r of
        None \<Rightarrow> None
      | Some (h, out, clusterName, tenID, e) \<Rightarrow> clusterNameAndTenantFromParams h out)"

subsection \<open>Example inputs\<close>

text \<open>
  A heap with one startup message of protocol version 3.0 at address 0, whose
  parameters are the given ones.
\<close>

definition heapWith :: "(string \<rightharpoonup> string) \<Rightarrow> heap" where
  "heapWith ps =
     \<lparr>msgs = [0 \<mapsto> \<lparr>ProtocolVersion = 196608, Parameters = Some 0\<rparr>],
      maps = [0 \<mapsto> ps],
      msg_next = 1,
      map_next = 1\<rparr>"

text \<open>
  A directory that knows no tenant, one that is unreachable, and a resolver for which
  every address resolves.
\<close>

definition directoryNotFound :: "TenantID \<Rightarrow> string \<Rightarrow> string \<times> statusError option" where
  "directoryNotFound tenID name =
     ([], Some \<lparr>statusCode = NotFound, statusText = ''tenant not found''\<rparr>)"

definition directoryUnavailable :: "TenantID \<Rightarrow> string \<Rightarrow> string \<times> statusError option" where
  "directoryUnavailable tenID name =
     ([], Some \<lparr>statusCode = Unavailable, statusText = ''directory is down''\<rparr>)"

definition resolvesAll :: "string \<Rightarrow> string option" where
  "resolvesAll addr = None"

section \<open>Properties\<close>

subsection \<open>The library functions\<close>

lemma LastIndex_ge: "- 1 \<le> LastIndex s sep"
  by (induction s) (auto simp: Let_def)

lemma LastIndex_notin: "sep \<notin> set s \<Longrightarrow> LastIndex s sep = - 1"
  by (induction s) (auto simp: Let_def)

lemma LastIndex_last: "sep \<notin> set N \<Longrightarrow> LastIndex (X @ sep # N) sep = int (length X)"
  by (induction X) (auto simp: Let_def LastIndex_notin)

lemma LastIndex_lt: "LastIndex s sep < int (length s)"
  by (induction s) (auto simp: Let_def)

lemma LastIndex_split:
  "0 \<le> LastIndex s sep \<Longrightarrow>
     s = take (nat (LastIndex s sep)) s @ sep # drop (nat (LastIndex s sep) + 1) s"
proof (induction s)
  case Nil
  then show ?case by simp
next
  case (Cons c cs)
  show ?case
  proof (cases "0 \<le> LastIndex cs sep")
    case True
    then have "LastIndex (c # cs) sep = LastIndex cs sep + 1" by (simp add: Let_def)
    moreover have "nat (LastIndex cs sep + 1) = Suc (nat (LastIndex cs sep))"
      using True by simp
    ultimately show ?thesis using Cons.IH [OF True] by simp
  next
    case False
    with Cons.prems have "c = sep" "LastIndex (c # cs) sep = 0"
      by (auto simp: Let_def split: if_splits)
    then show ?thesis by simp
  qed
qed

lemma isDigit_not_sep: "isDigit c \<Longrightarrow> c \<noteq> clusterTenantSep"
  by (auto simp: isDigit_def clusterTenantSep_def)

lemma ParseUint_digits: "ParseUint N = Some n \<Longrightarrow> N \<noteq> [] \<and> list_all isDigit N"
  by (auto simp: ParseUint_def split: if_splits)

lemma ParseUint_no_sep: "ParseUint N = Some n \<Longrightarrow> clusterTenantSep \<notin> set N"
  using ParseUint_digits isDigit_not_sep by (fastforce simp: list_all_iff)

subsection \<open>The successful path of the parser\<close>

text \<open>
  When both parameters parse, the identifiers they carry do not conflict, and the
  chosen identifier is a well-formed name, the separator and a legal tenant id, the
  parser allocates the rewritten message and returns it with the name and the id.
\<close>

lemma cnt_success:
  assumes m: "msgs h msg = Some m"
    and db: "parseDatabaseParam (mapIndex (paramsOf h (Parameters m)) ''database'')
               = (idDB, databaseName, None)"
    and opt: "parseOptionsParam (mapIndex (paramsOf h (Parameters m)) ''options'')
               = (idOpt, newOptionsParam, None)"
    and same: "idDB = [] \<or> idOpt = [] \<or> idDB = idOpt"
    and ident: "(if idDB = [] then idOpt else idDB) = X @ clusterTenantSep # N"
    and name: "clusterNameRegex_MatchString X"
    and num: "ParseUint N = Some n"
    and legal: "MinTenantID \<le> n"
  shows "clusterNameAndTenantFromParams h msg =
     Some (h\<lparr>maps := (maps h)(map_next h \<mapsto>
                 rangeParameters databaseName newOptionsParam (paramsOf h (Parameters m))),
             map_next := Suc (map_next h),
             msgs := (msgs h)(msg_next h \<mapsto>
                 \<lparr>ProtocolVersion = ProtocolVersion m, Parameters = Some (map_next h)\<rparr>),
             msg_next := Suc (msg_next h)\<rparr>,
           msg_next h, X, n, None)"
proof -
  have nosep: "clusterTenantSep \<notin> set N" using num by (rule ParseUint_no_sep)
  have Nne: "N \<noteq> []" using num ParseUint_digits by blast
  have idx: "LastIndex (X @ clusterTenantSep # N) clusterTenantSep = int (length X)"
    using nosep by (rule LastIndex_last)
  have ne: "\<not> (idDB = [] \<and> idOpt = [])" using ident by auto
  have amb: "\<not> (idDB \<noteq> [] \<and> idOpt \<noteq> [] \<and> idDB \<noteq> idOpt)" using same by auto
  have lt: "\<not> n < MinTenantID" using legal by simp
  show ?thesis
    unfolding clusterNameAndTenantFromParams_def
    using Nne lt name num
    by (simp add: m db opt ne amb ident idx Let_def newMap_def newMsg_def MakeTenantID_def)
qed

lemma msgParams_allocated:
  "msgParams (h\<lparr>maps := (maps h)(map_next h \<mapsto> ps),
               map_next := j,
               msgs := (msgs h)(msg_next h \<mapsto>
                 \<lparr>ProtocolVersion = v, Parameters = Some (map_next h)\<rparr>),
               msg_next := i\<rparr>) (msg_next h) = ps"
  by (simp add: msgParams_def paramsOf_def)

text \<open>The parser returns whenever its message is there, and only then.\<close>

lemma cnt_total:
  "msgs h msg = Some m \<Longrightarrow> \<exists>r. clusterNameAndTenantFromParams h msg = Some r"
  unfolding clusterNameAndTenantFromParams_def
  by (simp add: Let_def newMap_def newMsg_def split: prod.splits option.splits)

lemma cnt_defined:
  "clusterNameAndTenantFromParams h msg = Some r \<Longrightarrow> \<exists>m. msgs h msg = Some m"
  unfolding clusterNameAndTenantFromParams_def
  by (simp split: option.splits)

text \<open>Every error leaves through a return of the same shape.\<close>

lemma cnt_error:
  assumes "clusterNameAndTenantFromParams h msg = Some (h', out, name, tid, Some e)"
  shows "h' = h \<and> out = msg \<and> name = [] \<and> tid = MaxTenantID"
  using assms unfolding clusterNameAndTenantFromParams_def
  by (auto simp: Let_def newMap_def newMsg_def split: prod.splits option.splits if_splits)

text \<open>What a return without error tells about the input.\<close>

lemma cnt_ok:
  assumes r: "clusterNameAndTenantFromParams h msg = Some (h', out, name, tid, None)"
    and m: "msgs h msg = Some m"
  shows "\<exists>idDB databaseName idOpt newOptionsParam N.
      parseDatabaseParam (mapIndex (paramsOf h (Parameters m)) ''database'')
        = (idDB, databaseName, None)
    \<and> parseOptionsParam (mapIndex (paramsOf h (Parameters m)) ''options'')
        = (idOpt, newOptionsParam, None)
    \<and> (idDB \<noteq> [] \<or> idOpt \<noteq> [])
    \<and> (idDB = [] \<or> idOpt = [] \<or> idDB = idOpt)
    \<and> clusterNameRegex_MatchString name
    \<and> ParseUint N = Some tid
    \<and> MinTenantID \<le> tid
    \<and> (if idDB = [] then idOpt else idDB) = name @ clusterTenantSep # N
    \<and> out = msg_next h
    \<and> h' = h\<lparr>maps := (maps h)(map_next h \<mapsto>
                 rangeParameters databaseName newOptionsParam (paramsOf h (Parameters m))),
             map_next := Suc (map_next h),
             msgs := (msgs h)(msg_next h \<mapsto>
                 \<lparr>ProtocolVersion = ProtocolVersion m, Parameters = Some (map_next h)\<rparr>),
             msg_next := Suc (msg_next h)\<rparr>"
proof -
  obtain idDB databaseName ed where
    d: "parseDatabaseParam (mapIndex (paramsOf h (Parameters m)) ''database'')
          = (idDB, databaseName, ed)"
    by (cases "parseDatabaseParam (mapIndex (paramsOf h (Parameters m)) ''database'')") auto
  obtain idOpt newOptionsParam eo where
    o: "parseOptionsParam (mapIndex (paramsOf h (Parameters m)) ''options'')
          = (idOpt, newOptionsParam, eo)"
    by (cases "parseOptionsParam (mapIndex (paramsOf h (Parameters m)) ''options'')") auto
  define ident where "ident = (if idDB = [] then idOpt else idDB)"
  define i where "i = LastIndex ident clusterTenantSep"
  define N where "N = drop (nat i + 1) ident"
  note r' = r [unfolded clusterNameAndTenantFromParams_def, simplified m d o Let_def option.case prod.case,
      folded ident_def, folded i_def, folded N_def]
  have ed: "ed = None" using r' by (simp split: if_splits)
  have eo: "eo = None" using r' ed by (simp split: if_splits)
  have ne: "idDB \<noteq> [] \<or> idOpt \<noteq> []" using r' ed eo by (auto split: if_splits)
  have same: "idDB = [] \<or> idOpt = [] \<or> idDB = idOpt" using r' ed eo ne by (auto split: if_splits)
  have rest: "i \<noteq> - 1 \<and> name = take (nat i) ident \<and> clusterNameRegex_MatchString name
      \<and> ParseUint N = Some tid \<and> \<not> tid < MinTenantID \<and> out = msg_next h
      \<and> h' = h\<lparr>maps := (maps h)(map_next h \<mapsto>
                 rangeParameters databaseName newOptionsParam (paramsOf h (Parameters m))),
             map_next := Suc (map_next h),
             msgs := (msgs h)(msg_next h \<mapsto>
                 \<lparr>ProtocolVersion = ProtocolVersion m, Parameters = Some (map_next h)\<rparr>),
             msg_next := Suc (msg_next h)\<rparr>"
    using r' ed eo ne same
    by (auto simp: newMap_def newMsg_def MakeTenantID_def split: if_splits option.splits)
  have "0 \<le> i" using rest LastIndex_ge [of ident clusterTenantSep] by (simp add: i_def)
  then have "ident = name @ clusterTenantSep # N"
    using LastIndex_split [of ident clusterTenantSep] rest by (simp add: i_def N_def)
  then show ?thesis using d o ed eo ne same rest unfolding ident_def by auto
qed
subsection \<open>The two scenarios with literal values\<close>

lemma parseDatabaseParam_koala: "parseDatabaseParam ''happy-koala-3.defaultdb'' = (''happy-koala-3'', ''defaultdb'', None)"
  by code_simp
lemma parseDatabaseParam_defaultdb: "parseDatabaseParam ''defaultdb'' = ([], ''defaultdb'', None)"
  by code_simp
lemma parseOptionsParam_empty: "parseOptionsParam [] = ([], [], None)"
  by code_simp
lemma parseOptionsParam_koala: "parseOptionsParam ''-c cluster=happy-koala-3'' = (''happy-koala-3'', [], None)"
  by code_simp
lemma name_happy_koala: "clusterNameRegex_MatchString ''happy-koala''" by code_simp
lemma ParseUint_3: "ParseUint ''3'' = Some 3" by code_simp
lemma MinTenantID_le_3: "MinTenantID \<le> 3" by (simp add: MinTenantID_def)

lemma msgParams_Some:
  "msgParams h msg k = Some v \<Longrightarrow>
     \<exists>m. msgs h msg = Some m \<and> paramsOf h (Parameters m) = msgParams h msg"
  by (auto simp: msgParams_def split: option.splits)

text \<open>
  C1. For every startup message whose \<^verbatim>\<open>database\<close> parameter is
  \<^verbatim>\<open>happy-koala-3.defaultdb\<close> and that has no \<^verbatim>\<open>options\<close> parameter, the parser
  returns the cluster name \<^verbatim>\<open>happy-koala\<close>, the tenant id 3, no error, and a message
  whose \<^verbatim>\<open>database\<close> parameter is \<^verbatim>\<open>defaultdb\<close>. For every startup message with
  \<^verbatim>\<open>database\<close> \<^verbatim>\<open>defaultdb\<close> and \<^verbatim>\<open>options\<close> \<^verbatim>\<open>-c cluster=happy-koala-3\<close> it
  returns the same cluster name and tenant id, and a message that has no
  \<^verbatim>\<open>options\<close> key. Whatever other parameters the message has.
\<close>

theorem C1_literal_scenarios:
  "(msgParams h msg ''database'' = Some ''happy-koala-3.defaultdb''
      \<and> msgParams h msg ''options'' = None
    \<longrightarrow> returned (clusterNameAndTenantFromParams h msg) = Some (''happy-koala'', 3, None)
      \<and> returnedParams (clusterNameAndTenantFromParams h msg) ''database'' = Some ''defaultdb'')
   \<and> (msgParams h msg ''database'' = Some ''defaultdb''
      \<and> msgParams h msg ''options'' = Some ''-c cluster=happy-koala-3''
    \<longrightarrow> returned (clusterNameAndTenantFromParams h msg) = Some (''happy-koala'', 3, None)
      \<and> returnedParams (clusterNameAndTenantFromParams h msg) ''database'' = Some ''defaultdb''
      \<and> returnedParams (clusterNameAndTenantFromParams h msg) ''options'' = None)"
proof (intro conjI impI)
  assume a: "msgParams h msg ''database'' = Some ''happy-koala-3.defaultdb''
      \<and> msgParams h msg ''options'' = None"
  then obtain m where m: "msgs h msg = Some m"
    and ps: "paramsOf h (Parameters m) = msgParams h msg"
    using msgParams_Some by blast
  have d: "parseDatabaseParam (mapIndex (paramsOf h (Parameters m)) ''database'')
             = (''happy-koala-3'', ''defaultdb'', None)"
    using a by (simp add: ps mapIndex_def parseDatabaseParam_koala)
  have o: "parseOptionsParam (mapIndex (paramsOf h (Parameters m)) ''options'') = ([], [], None)"
    using a by (simp add: ps mapIndex_def parseOptionsParam_empty)
  have r: "clusterNameAndTenantFromParams h msg = Some (h\<lparr>maps := (maps h)(map_next h \<mapsto>
                 rangeParameters ''defaultdb'' [] (paramsOf h (Parameters m))),
             map_next := Suc (map_next h),
             msgs := (msgs h)(msg_next h \<mapsto>
                 \<lparr>ProtocolVersion = ProtocolVersion m, Parameters = Some (map_next h)\<rparr>),
             msg_next := Suc (msg_next h)\<rparr>,
           msg_next h, ''happy-koala'', 3, None)"
    by (rule cnt_success [OF m d o _ _ name_happy_koala ParseUint_3 MinTenantID_le_3]) (simp_all add: clusterTenantSep_def)
  show "returned (clusterNameAndTenantFromParams h msg) = Some (''happy-koala'', 3, None)"
    by (simp add: r returned_def)
  show "returnedParams (clusterNameAndTenantFromParams h msg) ''database'' = Some ''defaultdb''"
    using a by (simp add: r returnedParams_def msgParams_allocated rangeParameters_def ps paramsOutEntry_def)
next
  assume a: "msgParams h msg ''database'' = Some ''defaultdb''
      \<and> msgParams h msg ''options'' = Some ''-c cluster=happy-koala-3''"
  then obtain m where m: "msgs h msg = Some m"
    and ps: "paramsOf h (Parameters m) = msgParams h msg"
    using msgParams_Some by blast
  have d: "parseDatabaseParam (mapIndex (paramsOf h (Parameters m)) ''database'')
             = ([], ''defaultdb'', None)"
    using a by (simp add: ps mapIndex_def parseDatabaseParam_defaultdb)
  have o: "parseOptionsParam (mapIndex (paramsOf h (Parameters m)) ''options'')
             = (''happy-koala-3'', [], None)"
    using a by (simp add: ps mapIndex_def parseOptionsParam_koala)
  have r: "clusterNameAndTenantFromParams h msg = Some (h\<lparr>maps := (maps h)(map_next h \<mapsto>
                 rangeParameters ''defaultdb'' [] (paramsOf h (Parameters m))),
             map_next := Suc (map_next h),
             msgs := (msgs h)(msg_next h \<mapsto>
                 \<lparr>ProtocolVersion = ProtocolVersion m, Parameters = Some (map_next h)\<rparr>),
             msg_next := Suc (msg_next h)\<rparr>,
           msg_next h, ''happy-koala'', 3, None)"
    by (rule cnt_success [OF m d o _ _ name_happy_koala ParseUint_3 MinTenantID_le_3]) (simp_all add: clusterTenantSep_def)
  show "returned (clusterNameAndTenantFromParams h msg) = Some (''happy-koala'', 3, None)"
    by (simp add: r returned_def)
  show "returnedParams (clusterNameAndTenantFromParams h msg) ''database'' = Some ''defaultdb''"
    using a by (simp add: r returnedParams_def msgParams_allocated rangeParameters_def ps paramsOutEntry_def)
  show "returnedParams (clusterNameAndTenantFromParams h msg) ''options'' = None"
    using a by (simp add: r returnedParams_def msgParams_allocated rangeParameters_def ps paramsOutEntry_def)
qed

theorem C1_literal_scenarios_witness:
  "returned (clusterNameAndTenantFromParams
       (heapWith [''database'' \<mapsto> ''happy-koala-3.defaultdb'', ''user'' \<mapsto> ''ann'']) 0)
     = Some (''happy-koala'', 3, None)
   \<and> returnedParams (clusterNameAndTenantFromParams
       (heapWith [''database'' \<mapsto> ''happy-koala-3.defaultdb'', ''user'' \<mapsto> ''ann'']) 0) ''database''
     = Some ''defaultdb''
   \<and> returned (clusterNameAndTenantFromParams
       (heapWith [''database'' \<mapsto> ''defaultdb'', ''options'' \<mapsto> ''-c cluster=happy-koala-3'']) 0)
     = Some (''happy-koala'', 3, None)
   \<and> returnedParams (clusterNameAndTenantFromParams
       (heapWith [''database'' \<mapsto> ''defaultdb'', ''options'' \<mapsto> ''-c cluster=happy-koala-3'']) 0) ''options''
     = None"
  using C1_literal_scenarios [of "heapWith [''database'' \<mapsto> ''happy-koala-3.defaultdb'', ''user'' \<mapsto> ''ann'']" 0]
    C1_literal_scenarios [of "heapWith [''database'' \<mapsto> ''defaultdb'', ''options'' \<mapsto> ''-c cluster=happy-koala-3'']" 0]
  by (simp add: heapWith_def msgParams_def paramsOf_def)

subsection \<open>The split at the last dash\<close>

lemma returned_Some:
  "returned r = Some (name, tid, e) \<Longrightarrow> \<exists>h' out. r = Some (h', out, name, tid, e)"
  by (auto simp: returned_def split: option.splits)

text \<open>
  C3. Take any message whose two parameters parse and carry no conflicting identifiers,
  and let the identifier the parser works on (that of \<^verbatim>\<open>database\<close>, else that of
  \<^verbatim>\<open>options\<close>) be \<open>X-N\<close>, where \<open>N\<close> parses as a decimal number \<open>n\<close> of
  at least 2 (so \<open>N\<close> holds no dash and is what follows the last dash) and
  \<open>X\<close> has the format of a cluster name. Then the parser returns the cluster name
  \<open>X\<close>, which may hold dashes and digits itself, and the tenant id \<open>n\<close>.
  \<open>N\<close> parses in the sense of the code: \<^verbatim>\<open>strconv.ParseUint\<close> in base 10 on 64
  bits.
\<close>

theorem C3_split_at_last_dash:
  assumes "msgs h msg = Some m"
    and "parseDatabaseParam (mapIndex (msgParams h msg) ''database'') = (idDB, databaseName, None)"
    and "parseOptionsParam (mapIndex (msgParams h msg) ''options'') = (idOpt, newOptionsParam, None)"
    and "idDB = [] \<or> idOpt = [] \<or> idDB = idOpt"
    and "(if idDB = [] then idOpt else idDB) = X @ [clusterTenantSep] @ N"
    and "clusterNameRegex_MatchString X"
    and "ParseUint N = Some n"
    and "2 \<le> n"
  shows "returned (clusterNameAndTenantFromParams h msg) = Some (X, n, None)"
proof -
  have ps: "paramsOf h (Parameters m) = msgParams h msg"
    using assms(1) by (simp add: msgParams_def)
  have "clusterNameAndTenantFromParams h msg =
     Some (h\<lparr>maps := (maps h)(map_next h \<mapsto>
                 rangeParameters databaseName newOptionsParam (paramsOf h (Parameters m))),
             map_next := Suc (map_next h),
             msgs := (msgs h)(msg_next h \<mapsto>
                 \<lparr>ProtocolVersion = ProtocolVersion m, Parameters = Some (map_next h)\<rparr>),
             msg_next := Suc (msg_next h)\<rparr>,
           msg_next h, X, n, None)"
    using assms by (intro cnt_success) (simp_all add: ps MinTenantID_def)
  then show ?thesis by (simp add: returned_def)
qed

theorem C3_split_at_last_dash_witness:
  "returned (clusterNameAndTenantFromParams
       (heapWith [''database'' \<mapsto> ''happy-koala-7-10.defaultdb'']) 0)
     = Some (''happy-koala-7'', 10, None)"
proof (rule C3_split_at_last_dash [where idDB = "''happy-koala-7-10''" and idOpt = "[]"
      and N = "''10''" and databaseName = "''defaultdb''" and newOptionsParam = "[]"])
  show "msgs (heapWith [''database'' \<mapsto> ''happy-koala-7-10.defaultdb'']) 0
      = Some \<lparr>ProtocolVersion = 196608, Parameters = Some 0\<rparr>"
    by (simp add: heapWith_def)
  have ps: "msgParams (heapWith [''database'' \<mapsto> ''happy-koala-7-10.defaultdb'']) 0
      = [''database'' \<mapsto> ''happy-koala-7-10.defaultdb'']"
    by (simp add: heapWith_def msgParams_def paramsOf_def)
  show "parseDatabaseParam
      (mapIndex (msgParams (heapWith [''database'' \<mapsto> ''happy-koala-7-10.defaultdb'']) 0) ''database'')
      = (''happy-koala-7-10'', ''defaultdb'', None)"
    unfolding ps by code_simp
  show "parseOptionsParam
      (mapIndex (msgParams (heapWith [''database'' \<mapsto> ''happy-koala-7-10.defaultdb'']) 0) ''options'')
      = ([], [], None)"
    unfolding ps by code_simp
  show "clusterNameRegex_MatchString ''happy-koala-7''" by code_simp
  show "ParseUint ''10'' = Some 10" by code_simp
qed (simp_all add: clusterTenantSep_def)

subsection \<open>The parameters the parser does not rewrite\<close>

lemma cnt_frame:
  assumes "returned (clusterNameAndTenantFromParams h msg) = Some (name, tid, None)"
    and "k \<noteq> ''database''"
    and "k \<noteq> ''options''"
  shows "returnedParams (clusterNameAndTenantFromParams h msg) k = msgParams h msg k"
proof -
  obtain h' out where r: "clusterNameAndTenantFromParams h msg = Some (h', out, name, tid, None)"
    using assms(1) returned_Some by blast
  then obtain m where m: "msgs h msg = Some m" using cnt_defined by blast
  obtain databaseName newOptionsParam where
    "out = msg_next h"
    "h' = h\<lparr>maps := (maps h)(map_next h \<mapsto>
                 rangeParameters databaseName newOptionsParam (paramsOf h (Parameters m))),
             map_next := Suc (map_next h),
             msgs := (msgs h)(msg_next h \<mapsto>
                 \<lparr>ProtocolVersion = ProtocolVersion m, Parameters = Some (map_next h)\<rparr>),
             msg_next := Suc (msg_next h)\<rparr>"
    using cnt_ok [OF r m] by blast
  then have "msgParams h' out
      = rangeParameters databaseName newOptionsParam (paramsOf h (Parameters m))"
    by (simp add: msgParams_allocated)
  then show ?thesis
    using assms(2,3) m
    by (simp add: r returnedParams_def rangeParameters_def paramsOutEntry_def msgParams_def
        split: option.splits)
qed

text \<open>
  C7. When the parser succeeds, the message it returns maps every key other than
  \<^verbatim>\<open>database\<close> and \<^verbatim>\<open>options\<close> to what the message it received maps it to: the
  same value when the key is there, and nothing when it is not.
\<close>

theorem C7_other_keys_copied:
  assumes "returned (clusterNameAndTenantFromParams h msg) = Some (name, tid, None)"
    and "k \<noteq> ''database''"
    and "k \<noteq> ''options''"
  shows "returnedParams (clusterNameAndTenantFromParams h msg) k = msgParams h msg k"
  using assms by (rule cnt_frame)

theorem C7_other_keys_copied_witness:
  "returnedParams (clusterNameAndTenantFromParams
       (heapWith [''database'' \<mapsto> ''happy-koala-3.defaultdb'', ''user'' \<mapsto> ''ann'']) 0) ''user''
     = Some ''ann''
   \<and> returnedParams (clusterNameAndTenantFromParams
       (heapWith [''database'' \<mapsto> ''happy-koala-3.defaultdb'', ''user'' \<mapsto> ''ann'']) 0) ''sslmode''
     = None"
proof -
  have r: "returned (clusterNameAndTenantFromParams
       (heapWith [''database'' \<mapsto> ''happy-koala-3.defaultdb'', ''user'' \<mapsto> ''ann'']) 0)
     = Some (''happy-koala'', 3, None)"
    by code_simp
  show ?thesis
    using C7_other_keys_copied [OF r, of "''user''"] C7_other_keys_copied [OF r, of "''sslmode''"]
    by (simp add: heapWith_def msgParams_def paramsOf_def)
qed

subsection \<open>The caller's message is left alone\<close>

lemma wf_heap_msg_fresh: "wf_heap h \<Longrightarrow> msg_next h \<notin> dom (msgs h)"
  by (auto simp: wf_heap_def)

lemma wf_heap_map_fresh: "wf_heap h \<Longrightarrow> map_next h \<notin> dom (maps h)"
  by (auto simp: wf_heap_def)

lemma wf_heap_params:
  "wf_heap h \<Longrightarrow> msgs h p = Some m \<Longrightarrow> Parameters m = Some a \<Longrightarrow> a \<noteq> map_next h"
proof -
  assume wf: "wf_heap h" and m: "msgs h p = Some m" and a: "Parameters m = Some a"
  from m have "m \<in> ran (msgs h)" by (auto simp: ran_def)
  with wf a have "a \<in> dom (maps h)" by (fastforce simp: wf_heap_def)
  with wf show ?thesis by (auto simp: wf_heap_def)
qed

text \<open>
  C10. On a well-formed heap and a message that is there, the parser returns, and it
  writes to no object of the heap it was given: every message and every map of that
  heap is the same afterwards, the caller's message and its parameters among them. On
  an error it returns the very pointer it received, the empty cluster name and
  \<^verbatim>\<open>MaxTenantID\<close>, and the heap is unchanged. On success the pointer it returns is
  a new address, and the \<^verbatim>\<open>Parameters\<close> of the message there is a new map.
\<close>

theorem C10_input_not_mutated:
  assumes wf: "wf_heap h"
    and m: "msgs h msg = Some m"
  shows "\<exists>h' out name tid e.
      clusterNameAndTenantFromParams h msg = Some (h', out, name, tid, e)
    \<and> (\<forall>p. p \<in> dom (msgs h) \<longrightarrow> msgs h' p = msgs h p)
    \<and> (\<forall>a. a \<in> dom (maps h) \<longrightarrow> maps h' a = maps h a)
    \<and> msgs h' msg = Some m
    \<and> msgParams h' msg = msgParams h msg
    \<and> (e \<noteq> None \<longrightarrow> h' = h \<and> out = msg \<and> name = [] \<and> tid = MaxTenantID)
    \<and> (e = None \<longrightarrow> out \<notin> dom (msgs h)
          \<and> (\<exists>a. a \<notin> dom (maps h)
                \<and> msgs h' out = Some \<lparr>ProtocolVersion = ProtocolVersion m, Parameters = Some a\<rparr>))"
proof -
  obtain h' out name tid e where
    r: "clusterNameAndTenantFromParams h msg = Some (h', out, name, tid, e)"
    using cnt_total [OF m] by (metis prod_cases5)
  show ?thesis
  proof (cases e)
    case (Some e1)
    then have "h' = h \<and> out = msg \<and> name = [] \<and> tid = MaxTenantID"
      using r cnt_error by blast
    then show ?thesis using r Some m by simp
  next
    case None
    then obtain databaseName newOptionsParam where
      out: "out = msg_next h" and
      h': "h' = h\<lparr>maps := (maps h)(map_next h \<mapsto>
                 rangeParameters databaseName newOptionsParam (paramsOf h (Parameters m))),
             map_next := Suc (map_next h),
             msgs := (msgs h)(msg_next h \<mapsto>
                 \<lparr>ProtocolVersion = ProtocolVersion m, Parameters = Some (map_next h)\<rparr>),
             msg_next := Suc (msg_next h)\<rparr>"
      using cnt_ok [OF _ m] r by blast
    have f1: "msg_next h \<notin> dom (msgs h)" using wf by (rule wf_heap_msg_fresh)
    have f2: "map_next h \<notin> dom (maps h)" using wf by (rule wf_heap_map_fresh)
    have ne: "msg \<noteq> msg_next h" using f1 m by auto
    have keep: "msgs h' msg = Some m" using ne m by (simp add: h')
    have "paramsOf h' (Parameters m) = paramsOf h (Parameters m)"
      using wf_heap_params [OF wf m] by (auto simp: paramsOf_def h' split: option.splits)
    then have ps: "msgParams h' msg = msgParams h msg"
      using keep m by (simp add: msgParams_def)
    have a: "\<forall>p. p \<in> dom (msgs h) \<longrightarrow> msgs h' p = msgs h p"
      using f1 by (auto simp: h')
    have b: "\<forall>a. a \<in> dom (maps h) \<longrightarrow> maps h' a = maps h a"
      using f2 by (auto simp: h')
    have c: "msgs h' out = Some \<lparr>ProtocolVersion = ProtocolVersion m, Parameters = Some (map_next h)\<rparr>"
      by (simp add: h' out)
    show ?thesis using r None a b keep ps f1 f2 c out by auto
  qed
qed

theorem C10_input_not_mutated_witness:
  "wf_heap (heapWith [''database'' \<mapsto> ''happy-koala-3.defaultdb''])
   \<and> msgs (heapWith [''database'' \<mapsto> ''happy-koala-3.defaultdb'']) 0
       = Some \<lparr>ProtocolVersion = 196608, Parameters = Some 0\<rparr>
   \<and> (\<exists>h' out. clusterNameAndTenantFromParams
             (heapWith [''database'' \<mapsto> ''happy-koala-3.defaultdb'']) 0
           = Some (h', out, ''happy-koala'', 3, None)
        \<and> out \<noteq> 0
        \<and> msgs h' 0 = Some \<lparr>ProtocolVersion = 196608, Parameters = Some 0\<rparr>
        \<and> msgParams h' 0 = [''database'' \<mapsto> ''happy-koala-3.defaultdb''])"
proof -
  let ?h1 = "heapWith [''database'' \<mapsto> ''happy-koala-3.defaultdb'']"
  let ?m = "\<lparr>ProtocolVersion = 196608, Parameters = Some 0\<rparr>"
  have w1: "wf_heap ?h1" by (simp add: wf_heap_def heapWith_def)
  have m1: "msgs ?h1 0 = Some ?m" by (simp add: heapWith_def)
  have r1: "returned (clusterNameAndTenantFromParams ?h1 0) = Some (''happy-koala'', 3, None)"
    by code_simp
  have mp: "msgParams ?h1 0 = [''database'' \<mapsto> ''happy-koala-3.defaultdb'']"
    by (simp add: heapWith_def msgParams_def paramsOf_def)
  have dm: "0 \<in> dom (msgs ?h1)" using m1 by blast
  obtain h' out name tid e where
    c: "clusterNameAndTenantFromParams ?h1 0 = Some (h', out, name, tid, e)"
      "msgs h' 0 = Some ?m" "msgParams h' 0 = msgParams ?h1 0"
      "e = None \<longrightarrow> out \<notin> dom (msgs ?h1)"
    using C10_input_not_mutated [OF w1 m1] by blast
  have e: "name = ''happy-koala''" "tid = 3" "e = None"
    using r1 c(1) by (simp_all add: returned_def)
  have "out \<noteq> 0" using c(4) e(3) dm by auto
  then show ?thesis using w1 m1 c e mp by auto
qed

subsection \<open>The reserved tenant ids\<close>

lemma last_sep_unique:
  assumes "sep \<notin> set N" and "sep \<notin> set N'" and "X @ sep # N = X' @ sep # (N' :: string)"
  shows "X = X' \<and> N = N'"
proof -
  have "int (length X) = LastIndex (X @ sep # N) sep"
    using assms(1) by (simp add: LastIndex_last)
  also have "\<dots> = int (length X')"
    using assms(2,3) by (simp add: LastIndex_last)
  finally show ?thesis using assms(3) by simp
qed

lemma cnt_tenant_invalid:
  assumes m: "msgs h msg = Some m"
    and db: "parseDatabaseParam (mapIndex (paramsOf h (Parameters m)) ''database'')
               = (idDB, databaseName, None)"
    and opt: "parseOptionsParam (mapIndex (paramsOf h (Parameters m)) ''options'')
               = (idOpt, newOptionsParam, None)"
    and same: "idDB = [] \<or> idOpt = [] \<or> idDB = idOpt"
    and ident: "(if idDB = [] then idOpt else idDB) = X @ clusterTenantSep # N"
    and name: "clusterNameRegex_MatchString X"
    and num: "ParseUint N = Some n"
    and illegal: "n < MinTenantID"
  shows "clusterNameAndTenantFromParams h msg =
     Some (h, msg, [], MaxTenantID,
       Some (WithHint
         (errors_Errorf ''invalid cluster identifier '' (X @ clusterTenantSep # N))
         (''Tenant ID '' @ formatUint n @ '' is invalid.'')))"
proof -
  have nosep: "clusterTenantSep \<notin> set N" using num by (rule ParseUint_no_sep)
  have Nne: "N \<noteq> []" using num ParseUint_digits by blast
  have idx: "LastIndex (X @ clusterTenantSep # N) clusterTenantSep = int (length X)"
    using nosep by (rule LastIndex_last)
  have ne: "\<not> (idDB = [] \<and> idOpt = [])" using ident by auto
  have amb: "\<not> (idDB \<noteq> [] \<and> idOpt \<noteq> [] \<and> idDB \<noteq> idOpt)" using same by auto
  show ?thesis
    unfolding clusterNameAndTenantFromParams_def
    using Nne illegal name num
    by (simp add: m db opt ne amb ident idx Let_def)
qed

lemma parseDatabaseParam_koala0:
  "parseDatabaseParam ''happy-koala-0.db'' = (''happy-koala-0'', ''db'', None)"
  by code_simp

lemma ParseUint_0: "ParseUint ''0'' = Some 0"
  by code_simp

lemma formatUint_0: "formatUint 0 = ''0''"
  by code_simp

text \<open>
  C6. Whenever the identifier that the parser works on ends, after its last dash, in a
  number that parses to a tenant id below 2 (so 0 or 1), the parser returns an error,
  with the message it received, the empty name and \<^verbatim>\<open>MaxTenantID\<close>. And for every
  message whose \<^verbatim>\<open>database\<close> is \<^verbatim>\<open>happy-koala-0.db\<close> and that has no
  \<^verbatim>\<open>options\<close>, the error is \<^verbatim>\<open>invalid cluster identifier 'happy-koala-0'\<close> with
  the one hint \<^verbatim>\<open>Tenant ID 0 is invalid.\<close>
\<close>

theorem C6_reserved_tenant_rejected:
  "(msgs h msg = Some m
     \<and> parseDatabaseParam (mapIndex (msgParams h msg) ''database'') = (idDB, databaseName, None)
     \<and> parseOptionsParam (mapIndex (msgParams h msg) ''options'') = (idOpt, newOptionsParam, None)
     \<and> (if idDB = [] then idOpt else idDB) = X @ [clusterTenantSep] @ N
     \<and> ParseUint N = Some n
     \<and> n < 2
    \<longrightarrow> (\<exists>e. clusterNameAndTenantFromParams h msg = Some (h, msg, [], MaxTenantID, Some e)))
   \<and> (msgParams h msg ''database'' = Some ''happy-koala-0.db''
     \<and> msgParams h msg ''options'' = None
    \<longrightarrow> clusterNameAndTenantFromParams h msg =
          Some (h, msg, [], MaxTenantID,
            Some \<lparr>message = ''invalid cluster identifier '' @ quoted ''happy-koala-0'',
                  hints = [''Tenant ID 0 is invalid.'']\<rparr>))"
proof (intro conjI impI)
  assume a: "msgs h msg = Some m
     \<and> parseDatabaseParam (mapIndex (msgParams h msg) ''database'') = (idDB, databaseName, None)
     \<and> parseOptionsParam (mapIndex (msgParams h msg) ''options'') = (idOpt, newOptionsParam, None)
     \<and> (if idDB = [] then idOpt else idDB) = X @ [clusterTenantSep] @ N
     \<and> ParseUint N = Some n
     \<and> n < 2"
  then have m: "msgs h msg = Some m" by simp
  have ps: "paramsOf h (Parameters m) = msgParams h msg"
    using m by (simp add: msgParams_def)
  obtain h' out name tid e where
    r: "clusterNameAndTenantFromParams h msg = Some (h', out, name, tid, e)"
    using cnt_total [OF m] by (metis prod_cases5)
  show "\<exists>e. clusterNameAndTenantFromParams h msg = Some (h, msg, [], MaxTenantID, Some e)"
  proof (cases e)
    case (Some e1)
    then show ?thesis using r cnt_error by blast
  next
    case None
    then obtain idDB' databaseName' idOpt' newOptionsParam' N' where
      d: "parseDatabaseParam (mapIndex (paramsOf h (Parameters m)) ''database'')
            = (idDB', databaseName', None)" and
      o: "parseOptionsParam (mapIndex (paramsOf h (Parameters m)) ''options'')
            = (idOpt', newOptionsParam', None)" and
      num: "ParseUint N' = Some tid" and
      legal: "MinTenantID \<le> tid" and
      ident: "(if idDB' = [] then idOpt' else idDB') = name @ clusterTenantSep # N'"
      using cnt_ok [OF _ m] r by blast
    have eqs: "idDB' = idDB" "idOpt' = idOpt" using a d o by (simp_all add: ps)
    have i0: "(if idDB = [] then idOpt else idDB) = X @ clusterTenantSep # N" using a by simp
    have i1: "(if idDB = [] then idOpt else idDB) = name @ clusterTenantSep # N'"
      using ident by (simp only: eqs)
    have "X @ clusterTenantSep # N = name @ clusterTenantSep # N'"
      using i0 i1 by (rule trans [OF sym])
    moreover have "clusterTenantSep \<notin> set N" using a ParseUint_no_sep by blast
    moreover have "clusterTenantSep \<notin> set N'" using num by (rule ParseUint_no_sep)
    ultimately have "N = N'" using last_sep_unique by blast
    then have "tid = n" using a num by simp
    then have "2 \<le> n" using legal by (simp add: MinTenantID_def)
    moreover have "n < 2" using a by simp
    ultimately have False using leD by blast
    then show ?thesis ..
  qed
next
  assume a: "msgParams h msg ''database'' = Some ''happy-koala-0.db''
     \<and> msgParams h msg ''options'' = None"
  then obtain m where m: "msgs h msg = Some m"
    and ps: "paramsOf h (Parameters m) = msgParams h msg"
    by (auto simp: msgParams_def split: option.splits)
  have d: "parseDatabaseParam (mapIndex (paramsOf h (Parameters m)) ''database'')
             = (''happy-koala-0'', ''db'', None)"
    using a by (simp add: ps mapIndex_def parseDatabaseParam_koala0)
  have o: "parseOptionsParam (mapIndex (paramsOf h (Parameters m)) ''options'') = ([], [], None)"
    using a by (simp add: ps mapIndex_def parseOptionsParam_empty)
  have "clusterNameAndTenantFromParams h msg =
     Some (h, msg, [], MaxTenantID,
       Some (WithHint
         (errors_Errorf ''invalid cluster identifier '' (''happy-koala'' @ clusterTenantSep # ''0''))
         (''Tenant ID '' @ formatUint 0 @ '' is invalid.'')))"
    by (rule cnt_tenant_invalid [OF m d o _ _ name_happy_koala ParseUint_0])
       (simp_all add: clusterTenantSep_def MinTenantID_def)
  then show "clusterNameAndTenantFromParams h msg =
          Some (h, msg, [], MaxTenantID,
            Some \<lparr>message = ''invalid cluster identifier '' @ quoted ''happy-koala-0'',
                  hints = [''Tenant ID 0 is invalid.'']\<rparr>)"
    by (simp add: formatUint_0 WithHint_def errors_Errorf_def errors_New_def clusterTenantSep_def)
qed

theorem C6_reserved_tenant_rejected_witness:
  "clusterNameAndTenantFromParams (heapWith [''database'' \<mapsto> ''happy-koala-0.db'']) 0 =
     Some (heapWith [''database'' \<mapsto> ''happy-koala-0.db''], 0, [], MaxTenantID,
       Some \<lparr>message = ''invalid cluster identifier '' @ quoted ''happy-koala-0'',
             hints = [''Tenant ID 0 is invalid.'']\<rparr>)
   \<and> (\<exists>e. clusterNameAndTenantFromParams
           (heapWith [''options'' \<mapsto> ''--cluster=happy-koala-1'']) 0 =
         Some (heapWith [''options'' \<mapsto> ''--cluster=happy-koala-1''], 0, [], MaxTenantID, Some e))"
proof -
  have o: "parseOptionsParam ''--cluster=happy-koala-1'' = (''happy-koala-1'', [], None)"
    by code_simp
  have d: "parseDatabaseParam [] = ([], [], None)"
    by code_simp
  have p: "ParseUint ''1'' = Some 1"
    by code_simp
  have 1: "clusterNameAndTenantFromParams (heapWith [''database'' \<mapsto> ''happy-koala-0.db'']) 0 =
     Some (heapWith [''database'' \<mapsto> ''happy-koala-0.db''], 0, [], MaxTenantID,
       Some \<lparr>message = ''invalid cluster identifier '' @ quoted ''happy-koala-0'',
             hints = [''Tenant ID 0 is invalid.'']\<rparr>)"
    using C6_reserved_tenant_rejected [of "heapWith [''database'' \<mapsto> ''happy-koala-0.db'']" 0]
    by (simp add: heapWith_def msgParams_def paramsOf_def)
  have 2: "\<exists>e. clusterNameAndTenantFromParams
           (heapWith [''options'' \<mapsto> ''--cluster=happy-koala-1'']) 0 =
         Some (heapWith [''options'' \<mapsto> ''--cluster=happy-koala-1''], 0, [], MaxTenantID, Some e)"
    using C6_reserved_tenant_rejected [of "heapWith [''options'' \<mapsto> ''--cluster=happy-koala-1'']" 0
        "\<lparr>ProtocolVersion = 196608, Parameters = Some 0\<rparr>" "[]" "[]" "''happy-koala-1''" "[]"
        "''happy-koala''" "''1''" 1]
    by (simp add: heapWith_def msgParams_def paramsOf_def mapIndex_def o d p clusterTenantSep_def)
  show ?thesis using 1 2 by blast
qed

subsection \<open>Two cluster flags\<close>

lemma FindAllStringSubmatch_cap: "length (FindAllStringSubmatch s n) \<le> n"
  by (induction n arbitrary: s) (auto split: option.splits)

text \<open>
  C5. When the expression of the cluster flag matches in the \<^verbatim>\<open>options\<close> parameter
  and matches again in what follows that match, \<^verbatim>\<open>parseOptionsParam\<close> returns the
  error \<^verbatim>\<open>multiple cluster flags provided\<close>, whatever the two identifiers are (the
  same one twice included); and the search never returns more than two matches.
\<close>

theorem C5_two_cluster_flags:
  assumes "findFirst optionsParam = Some (before1, m1, g1, rest1)"
    and "findFirst rest1 = Some (before2, m2, g2, rest2)"
  shows "parseOptionsParam optionsParam
           = ([], [], Some (errors_New ''multiple cluster flags provided''))
         \<and> length (FindAllStringSubmatch optionsParam 2) \<le> 2"
proof -
  have "FindAllStringSubmatch optionsParam (Suc (Suc 0)) = [[m1, g1], [m2, g2]]"
    using assms by simp
  then have "FindAllStringSubmatch optionsParam 2 = [[m1, g1], [m2, g2]]"
    by (simp add: numeral_2_eq_2)
  then show ?thesis
    by (simp add: parseOptionsParam_def FindAllStringSubmatch_cap)
qed

theorem C5_two_cluster_flags_witness:
  "findFirst ''-c cluster=happy-koala-3 --cluster=happy-koala-3''
     = Some ([], ''-c cluster=happy-koala-3'', ''happy-koala-3'', '' --cluster=happy-koala-3'')
   \<and> findFirst '' --cluster=happy-koala-3''
     = Some ('' '', ''--cluster=happy-koala-3'', ''happy-koala-3'', [])
   \<and> parseOptionsParam ''-c cluster=happy-koala-3 --cluster=happy-koala-3''
     = ([], [], Some (errors_New ''multiple cluster flags provided''))"
proof -
  have 1: "findFirst ''-c cluster=happy-koala-3 --cluster=happy-koala-3''
     = Some ([], ''-c cluster=happy-koala-3'', ''happy-koala-3'', '' --cluster=happy-koala-3'')"
    by code_simp
  have 2: "findFirst '' --cluster=happy-koala-3''
     = Some ('' '', ''--cluster=happy-koala-3'', ''happy-koala-3'', [])"
    by code_simp
  show ?thesis using 1 2 C5_two_cluster_flags [OF 1 2] by simp
qed

subsection \<open>The address of the backend\<close>

text \<open>
  C2 as stated fails: with a directory configured that answers \<^verbatim>\<open>NotFound\<close>, the
  function goes on to the routing rule and returns the address built from it, with
  no error.
\<close>

theorem C2_not_found_is_final_counterexample:
  "outgoingAddress resolvesAll
     \<lparr>RoutingRule = ''{{clusterName}}.sql.svc:26257'', directory = Some directoryNotFound\<rparr>
     ''happy-koala'' 3
   = (''happy-koala-3.sql.svc:26257'', None)"
  by code_simp

text \<open>
  C2, amended. Without a directory, the address is the routing rule with
  \<^verbatim>\<open>{{clusterName}}\<close> replaced by the name, a dash and the tenant id, returned when it
  resolves and turned into a \<^verbatim>\<open>NotFound\<close> error when it does not. With a directory,
  \<^verbatim>\<open>EnsureTenantAddr\<close> is asked first: its address is returned as it is, and so
  is its error unless the error is \<^verbatim>\<open>NotFound\<close>; on \<^verbatim>\<open>NotFound\<close> the function falls
  back to the routing rule and answers what it would answer without a directory.
\<close>

theorem C2_directory_first_then_routing_rule:
  "(directory handler = None \<longrightarrow>
      outgoingAddress resolveTCPAddr handler name tenID =
        (case resolveTCPAddr (ReplaceAll (RoutingRule handler) ''{{clusterName}}''
                                (name @ ''-'' @ formatUint tenID)) of
           None \<Rightarrow> (ReplaceAll (RoutingRule handler) ''{{clusterName}}''
                       (name @ ''-'' @ formatUint tenID), None)
         | Some e \<Rightarrow> ([], Some \<lparr>statusCode = NotFound, statusText = e\<rparr>)))
   \<and> (directory handler = Some EnsureTenantAddr \<and> EnsureTenantAddr tenID name = (addr, None) \<longrightarrow>
      outgoingAddress resolveTCPAddr handler name tenID = (addr, None))
   \<and> (directory handler = Some EnsureTenantAddr \<and> EnsureTenantAddr tenID name = (addr, Some e)
        \<and> statusCode e \<noteq> NotFound \<longrightarrow>
      outgoingAddress resolveTCPAddr handler name tenID = ([], Some e))
   \<and> (directory handler = Some EnsureTenantAddr \<and> EnsureTenantAddr tenID name = (addr, Some e)
        \<and> statusCode e = NotFound \<longrightarrow>
      outgoingAddress resolveTCPAddr handler name tenID =
        outgoingAddress resolveTCPAddr (handler\<lparr>directory := None\<rparr>) name tenID)"
  by (auto simp: outgoingAddress_def Let_def split: option.splits)

theorem C2_directory_first_then_routing_rule_witness:
  "outgoingAddress resolvesAll
     \<lparr>RoutingRule = ''{{clusterName}}.sql.svc:26257'', directory = Some directoryNotFound\<rparr>
     ''happy-koala'' 3
   = outgoingAddress resolvesAll
     \<lparr>RoutingRule = ''{{clusterName}}.sql.svc:26257'', directory = None\<rparr>
     ''happy-koala'' 3
   \<and> outgoingAddress resolvesAll
     \<lparr>RoutingRule = ''{{clusterName}}.sql.svc:26257'', directory = Some directoryUnavailable\<rparr>
     ''happy-koala'' 3
   = ([], Some \<lparr>statusCode = Unavailable, statusText = ''directory is down''\<rparr>)"
  using C2_directory_first_then_routing_rule [of
      "\<lparr>RoutingRule = ''{{clusterName}}.sql.svc:26257'', directory = Some directoryNotFound\<rparr>"
      resolvesAll "''happy-koala''" 3 directoryNotFound "[]"
      "\<lparr>statusCode = NotFound, statusText = ''tenant not found''\<rparr>"]
    C2_directory_first_then_routing_rule [of
      "\<lparr>RoutingRule = ''{{clusterName}}.sql.svc:26257'', directory = Some directoryUnavailable\<rparr>"
      resolvesAll "''happy-koala''" 3 directoryUnavailable "[]"
      "\<lparr>statusCode = Unavailable, statusText = ''directory is down''\<rparr>"]
  by (simp add: directoryNotFound_def directoryUnavailable_def)

subsection \<open>The remote address\<close>

text \<open>
  C8 as stated fails: the parser has no access to the connection, and the message it
  returns for a client that sent no \<^verbatim>\<open>crdb:remote_addr\<close> has no such key.
\<close>

theorem C8_parser_sets_remote_addr_counterexample:
  "returned (clusterNameAndTenantFromParams
       (heapWith [''database'' \<mapsto> ''happy-koala-3.defaultdb'', ''user'' \<mapsto> ''ann'']) 0)
     = Some (''happy-koala'', 3, None)
   \<and> returnedParams (clusterNameAndTenantFromParams
       (heapWith [''database'' \<mapsto> ''happy-koala-3.defaultdb'', ''user'' \<mapsto> ''ann'']) 0)
       ''crdb:remote_addr''
     = None"
  by code_simp

lemma handle_parse_ok:
  assumes r: "clusterNameAndTenantFromParams h msg = Some (h1, out, name, tid, None)"
  shows "\<exists>m a. msgs h1 out = Some m \<and> Parameters m = Some a
    \<and> handle_parse h msg remoteAddr =
        Some (h1\<lparr>maps := (maps h1)(a \<mapsto> (msgParams h1 out)(''crdb:remote_addr'' \<mapsto> remoteAddr))\<rparr>,
              Inr (out, name, tid))"
proof -
  obtain m where m: "msgs h msg = Some m" using r cnt_defined by blast
  obtain databaseName newOptionsParam where
    out: "out = msg_next h" and
    h1: "h1 = h\<lparr>maps := (maps h)(map_next h \<mapsto>
                 rangeParameters databaseName newOptionsParam (paramsOf h (Parameters m))),
             map_next := Suc (map_next h),
             msgs := (msgs h)(msg_next h \<mapsto>
                 \<lparr>ProtocolVersion = ProtocolVersion m, Parameters = Some (map_next h)\<rparr>),
             msg_next := Suc (msg_next h)\<rparr>"
    using cnt_ok [OF r m] by blast
  have 1: "msgs h1 out = Some \<lparr>ProtocolVersion = ProtocolVersion m, Parameters = Some (map_next h)\<rparr>"
    by (simp add: h1 out)
  then have 2: "paramsOf h1 (Some (map_next h)) = msgParams h1 out"
    by (simp add: msgParams_def)
  show ?thesis
    using 1 2 by (simp add: handle_parse_def r mapAssign_def)
qed

text \<open>
  C8, amended. The parser treats \<^verbatim>\<open>crdb:remote_addr\<close> as any other key: the message
  it returns has it exactly when the client sent it. It is the caller, \<^verbatim>\<open>handle\<close>,
  that writes the remote address of the connection under that key, right after a
  successful parse and into the message that the parser returned: whenever the parser
  succeeds, the step of \<^verbatim>\<open>handle\<close> goes on with a message that maps
  \<^verbatim>\<open>crdb:remote_addr\<close> to the remote address and every other key to what the parser
  returned, and (on a well-formed heap) the client's own message is as it was.
\<close>

theorem C8_handle_sets_remote_addr:
  assumes "returned (clusterNameAndTenantFromParams h msg) = Some (name, tid, None)"
  shows "\<exists>h2 out.
      handle_parse h msg remoteAddr = Some (h2, Inr (out, name, tid))
    \<and> msgParams h2 out ''crdb:remote_addr'' = Some remoteAddr
    \<and> (\<forall>k. k \<noteq> ''crdb:remote_addr'' \<longrightarrow>
          msgParams h2 out k = returnedParams (clusterNameAndTenantFromParams h msg) k)
    \<and> returnedParams (clusterNameAndTenantFromParams h msg) ''crdb:remote_addr''
        = msgParams h msg ''crdb:remote_addr''
    \<and> (wf_heap h \<longrightarrow> msgParams h2 msg = msgParams h msg)"
proof -
  obtain h1 out where r: "clusterNameAndTenantFromParams h msg = Some (h1, out, name, tid, None)"
    using assms returned_Some by blast
  obtain m a where m: "msgs h1 out = Some m" and a: "Parameters m = Some a"
    and hp: "handle_parse h msg remoteAddr =
        Some (h1\<lparr>maps := (maps h1)(a \<mapsto> (msgParams h1 out)(''crdb:remote_addr'' \<mapsto> remoteAddr))\<rparr>,
              Inr (out, name, tid))"
    using handle_parse_ok [OF r] by blast
  let ?h2 = "h1\<lparr>maps := (maps h1)(a \<mapsto> (msgParams h1 out)(''crdb:remote_addr'' \<mapsto> remoteAddr))\<rparr>"
  have ps: "msgParams ?h2 out = (msgParams h1 out)(''crdb:remote_addr'' \<mapsto> remoteAddr)"
    using m a by (simp add: msgParams_def paramsOf_def)
  have c1: "msgParams ?h2 out ''crdb:remote_addr'' = Some remoteAddr"
    by (simp add: ps)
  have c2: "\<forall>k. k \<noteq> ''crdb:remote_addr'' \<longrightarrow>
          msgParams ?h2 out k = returnedParams (clusterNameAndTenantFromParams h msg) k"
    by (simp add: ps r returnedParams_def)
  have c3: "returnedParams (clusterNameAndTenantFromParams h msg) ''crdb:remote_addr''
        = msgParams h msg ''crdb:remote_addr''"
    using cnt_frame [OF assms, of "''crdb:remote_addr''"] by simp
  have c4: "wf_heap h \<longrightarrow> msgParams ?h2 msg = msgParams h msg"
  proof
    assume wf: "wf_heap h"
    obtain m0 where m0: "msgs h msg = Some m0" using r cnt_defined by blast
    obtain databaseName newOptionsParam where
      out: "out = msg_next h" and
      h1: "h1 = h\<lparr>maps := (maps h)(map_next h \<mapsto>
                 rangeParameters databaseName newOptionsParam (paramsOf h (Parameters m0))),
             map_next := Suc (map_next h),
             msgs := (msgs h)(msg_next h \<mapsto>
                 \<lparr>ProtocolVersion = ProtocolVersion m0, Parameters = Some (map_next h)\<rparr>),
             msg_next := Suc (msg_next h)\<rparr>"
      using cnt_ok [OF r m0] by blast
    have am: "a = map_next h" using m a by (auto simp: h1 out)
    have ne: "msg \<noteq> msg_next h" using wf_heap_msg_fresh [OF wf] m0 by auto
    have keep: "msgs ?h2 msg = Some m0" using ne m0 by (simp add: h1)
    have "paramsOf ?h2 (Parameters m0) = paramsOf h (Parameters m0)"
      using wf_heap_params [OF wf m0] by (auto simp: paramsOf_def h1 am split: option.splits)
    then show "msgParams ?h2 msg = msgParams h msg"
      using keep m0 by (simp add: msgParams_def)
  qed
  show ?thesis using hp c1 c2 c3 c4 by blast
qed

theorem C8_handle_sets_remote_addr_witness:
  "returned (clusterNameAndTenantFromParams
       (heapWith [''database'' \<mapsto> ''happy-koala-3.defaultdb'', ''user'' \<mapsto> ''ann'']) 0)
     = Some (''happy-koala'', 3, None)
   \<and> (\<exists>h2 out.
      handle_parse (heapWith [''database'' \<mapsto> ''happy-koala-3.defaultdb'', ''user'' \<mapsto> ''ann''])
         0 ''10.0.0.7:51234''
        = Some (h2, Inr (out, ''happy-koala'', 3))
    \<and> msgParams h2 out ''crdb:remote_addr'' = Some ''10.0.0.7:51234'')"
proof -
  have r: "returned (clusterNameAndTenantFromParams
       (heapWith [''database'' \<mapsto> ''happy-koala-3.defaultdb'', ''user'' \<mapsto> ''ann'']) 0)
     = Some (''happy-koala'', 3, None)"
    by code_simp
  show ?thesis
    using r C8_handle_sets_remote_addr [OF r, of "''10.0.0.7:51234''"] by blast
qed

subsection \<open>Where the identifier is placed\<close>

lemma cnt_missing:
  assumes m: "msgs h msg = Some m"
    and db: "parseDatabaseParam (mapIndex (paramsOf h (Parameters m)) ''database'')
               = ([], databaseName, None)"
    and opt: "parseOptionsParam (mapIndex (paramsOf h (Parameters m)) ''options'')
               = ([], newOptionsParam, None)"
  shows "clusterNameAndTenantFromParams h msg =
     Some (h, msg, [], MaxTenantID,
       Some (WithHint (errors_New ''missing cluster identifier'') clusterIdentifierHint))"
  unfolding clusterNameAndTenantFromParams_def
  by (simp add: m db opt Let_def)

lemma cnt_ambiguous:
  assumes m: "msgs h msg = Some m"
    and db: "parseDatabaseParam (mapIndex (paramsOf h (Parameters m)) ''database'')
               = (idDB, databaseName, None)"
    and opt: "parseOptionsParam (mapIndex (paramsOf h (Parameters m)) ''options'')
               = (idOpt, newOptionsParam, None)"
    and ne: "idDB \<noteq> []" "idOpt \<noteq> []" "idDB \<noteq> idOpt"
  shows "clusterNameAndTenantFromParams h msg =
     Some (h, msg, [], MaxTenantID,
       Some (WithHint
         (WithHint (errors_New ''multiple different cluster identifiers provided'')
            (''Is '' @ quoted idDB @ '' or '' @ quoted idOpt
             @ '' the identifier for the cluster that you're connecting to?''))
         clusterIdentifierHint))"
  unfolding clusterNameAndTenantFromParams_def
  using ne by (simp add: m db opt Let_def)

lemma cnt_placed:
  assumes m: "msgs h msg = Some m"
    and db: "parseDatabaseParam (mapIndex (paramsOf h (Parameters m)) ''database'')
               = (idDB, databaseName, None)"
    and opt: "parseOptionsParam (mapIndex (paramsOf h (Parameters m)) ''options'')
               = (idOpt, newOptionsParam, None)"
    and ne: "idDB \<noteq> [] \<or> idOpt \<noteq> []"
    and same: "idDB = [] \<or> idOpt = [] \<or> idDB = idOpt"
    and r: "clusterNameAndTenantFromParams h msg = Some (h', out, name, tid, Some e)"
  shows "message e
      = ''invalid cluster identifier '' @ quoted (escapeMarkers (if idDB = [] then idOpt else idDB))"
proof -
  define ident where "ident = (if idDB = [] then idOpt else idDB)"
  have n1: "\<not> (idDB = [] \<and> idOpt = [])" using ne by simp
  have n2: "\<not> (idDB \<noteq> [] \<and> idOpt \<noteq> [] \<and> idDB \<noteq> idOpt)" using same by auto
  note r' = r [unfolded clusterNameAndTenantFromParams_def,
      simplified m db opt n1 n2 Let_def option.case prod.case if_False not_None_eq simp_thms,
      folded ident_def]
  show ?thesis
    using r' unfolding ident_def [symmetric]
    by (auto simp: WithHint_def errors_Errorf_def errors_New_def newMap_def newMsg_def
        split: if_splits option.splits)
qed
text \<open>
  An identifier that holds the marker U+2039, the same in both parameters: the name
  is rejected, and the message of the error shows a question mark in place of the
  marker.
\<close>

lemma cnt_marker_escaped:
  "\<exists>hs. returned (clusterNameAndTenantFromParams
        (heapWith [''database'' \<mapsto> ''a'' @ [CHR 0xE2, CHR 0x80, CHR 0xB9] @ ''bcdef-3.db'',
                   ''options'' \<mapsto> ''--cluster=a'' @ [CHR 0xE2, CHR 0x80, CHR 0xB9] @ ''bcdef-3'']) 0)
      = Some ([], MaxTenantID,
          Some \<lparr>message = ''invalid cluster identifier '' @ quoted ''a?bcdef-3'', hints = hs\<rparr>)"
proof -
  have "returned (clusterNameAndTenantFromParams
        (heapWith [''database'' \<mapsto> ''a'' @ [CHR 0xE2, CHR 0x80, CHR 0xB9] @ ''bcdef-3.db'',
                   ''options'' \<mapsto> ''--cluster=a'' @ [CHR 0xE2, CHR 0x80, CHR 0xB9] @ ''bcdef-3'']) 0)
      = Some ([], MaxTenantID,
          Some \<lparr>message = ''invalid cluster identifier '' @ quoted ''a?bcdef-3'',
                hints = [''Is '' @ quoted (''a'' @ [CHR 0xE2, CHR 0x80, CHR 0xB9] @ ''bcdef'')
                           @ '' a valid cluster name?'',
                         clusterNameFormHint]\<rparr>)"
    by code_simp
  then show ?thesis by blast
qed

text \<open>
  C4 as stated fails: with the same identifier \<^verbatim>\<open>koala-5\<close> in both parameters the
  parser does not succeed; it rejects the identifier, whose name is too short.
\<close>

theorem C4_same_identifier_succeeds_counterexample:
  "parseDatabaseParam ''koala-5.db'' = (''koala-5'', ''db'', None)
   \<and> parseOptionsParam ''--cluster=koala-5'' = (''koala-5'', [], None)
   \<and> returned (clusterNameAndTenantFromParams
        (heapWith [''database'' \<mapsto> ''koala-5.db'', ''options'' \<mapsto> ''--cluster=koala-5'']) 0)
      = Some ([], MaxTenantID,
          Some \<lparr>message = ''invalid cluster identifier '' @ quoted ''koala-5'',
                hints = [''Is '' @ quoted ''koala'' @ '' a valid cluster name?'',
                         clusterNameFormHint]\<rparr>)"
  by code_simp

text \<open>
  C4, amended. For a message whose two parameters parse: if neither carries an
  identifier, the parser fails with \<^verbatim>\<open>missing cluster identifier\<close> and the hint that
  lists both placements; if both carry one and the two differ, it fails with
  \<^verbatim>\<open>multiple different cluster identifiers provided\<close>; if both carry the same one,
  the placement is accepted and the identifier is validated like any other: the
  message of an error, if there is one, starts with \<^verbatim>\<open>invalid cluster identifier\<close>,
  and is exactly that text followed by the identifier between apostrophes when the
  identifier holds no redaction marker (U+2039 or U+203A, which the error library
  replaces); and the parser succeeds when the identifier is a well-formed name, a dash
  and a tenant id of at least 2.
\<close>

theorem C4_placement_errors:
  assumes "msgs h msg = Some m"
    and "parseDatabaseParam (mapIndex (msgParams h msg) ''database'') = (idDB, databaseName, None)"
    and "parseOptionsParam (mapIndex (msgParams h msg) ''options'') = (idOpt, newOptionsParam, None)"
  shows "(idDB = [] \<and> idOpt = [] \<longrightarrow>
            clusterNameAndTenantFromParams h msg =
              Some (h, msg, [], MaxTenantID,
                Some (WithHint (errors_New ''missing cluster identifier'') clusterIdentifierHint)))
       \<and> (idDB \<noteq> [] \<and> idOpt \<noteq> [] \<and> idDB \<noteq> idOpt \<longrightarrow>
            clusterNameAndTenantFromParams h msg =
              Some (h, msg, [], MaxTenantID,
                Some (WithHint
                  (WithHint (errors_New ''multiple different cluster identifiers provided'')
                     (''Is '' @ quoted idDB @ '' or '' @ quoted idOpt
                      @ '' the identifier for the cluster that you're connecting to?''))
                  clusterIdentifierHint)))
       \<and> (idDB \<noteq> [] \<and> idOpt = idDB \<longrightarrow>
            (\<forall>name tid e. returned (clusterNameAndTenantFromParams h msg) = Some (name, tid, Some e)
               \<longrightarrow> take 27 (message e) = ''invalid cluster identifier ''
                 \<and> (escapeMarkers idDB = idDB
                      \<longrightarrow> message e = ''invalid cluster identifier '' @ quoted idDB))
            \<and> (\<forall>X N n. idDB = X @ [clusterTenantSep] @ N \<and> clusterNameRegex_MatchString X
                  \<and> ParseUint N = Some n \<and> 2 \<le> n
               \<longrightarrow> returned (clusterNameAndTenantFromParams h msg) = Some (X, n, None)))"
proof -
  have ps: "paramsOf h (Parameters m) = msgParams h msg"
    using assms(1) by (simp add: msgParams_def)
  note m = assms(1)
  note db = assms(2) [folded ps]
  note opt = assms(3) [folded ps]
  have a: "idDB = [] \<and> idOpt = [] \<longrightarrow>
            clusterNameAndTenantFromParams h msg =
              Some (h, msg, [], MaxTenantID,
                Some (WithHint (errors_New ''missing cluster identifier'') clusterIdentifierHint))"
    using cnt_missing [OF m] db opt by blast
  have b: "idDB \<noteq> [] \<and> idOpt \<noteq> [] \<and> idDB \<noteq> idOpt \<longrightarrow>
            clusterNameAndTenantFromParams h msg =
              Some (h, msg, [], MaxTenantID,
                Some (WithHint
                  (WithHint (errors_New ''multiple different cluster identifiers provided'')
                     (''Is '' @ quoted idDB @ '' or '' @ quoted idOpt
                      @ '' the identifier for the cluster that you're connecting to?''))
                  clusterIdentifierHint))"
    using cnt_ambiguous [OF m db opt] by blast
  have c1: "idDB \<noteq> [] \<and> idOpt = idDB \<longrightarrow>
            (\<forall>name tid e. returned (clusterNameAndTenantFromParams h msg) = Some (name, tid, Some e)
               \<longrightarrow> take 27 (message e) = ''invalid cluster identifier ''
                 \<and> (escapeMarkers idDB = idDB
                      \<longrightarrow> message e = ''invalid cluster identifier '' @ quoted idDB))"
  proof (intro impI allI)
    fix name tid e
    assume i: "idDB \<noteq> [] \<and> idOpt = idDB"
      and r: "returned (clusterNameAndTenantFromParams h msg) = Some (name, tid, Some e)"
    obtain h' out where "clusterNameAndTenantFromParams h msg = Some (h', out, name, tid, Some e)"
      using r returned_Some by blast
    then have "message e
        = ''invalid cluster identifier '' @ quoted (escapeMarkers (if idDB = [] then idOpt else idDB))"
      using i by (intro cnt_placed [OF m db opt]) auto
    then have msg: "message e = ''invalid cluster identifier '' @ quoted (escapeMarkers idDB)"
      using i by simp
    show "take 27 (message e) = ''invalid cluster identifier ''
        \<and> (escapeMarkers idDB = idDB
             \<longrightarrow> message e = ''invalid cluster identifier '' @ quoted idDB)"
      by (simp add: msg)
  qed
  have c2: "idDB \<noteq> [] \<and> idOpt = idDB \<longrightarrow>
            (\<forall>X N n. idDB = X @ [clusterTenantSep] @ N \<and> clusterNameRegex_MatchString X
                  \<and> ParseUint N = Some n \<and> 2 \<le> n
               \<longrightarrow> returned (clusterNameAndTenantFromParams h msg) = Some (X, n, None))"
  proof (intro impI allI)
    fix X N n
    assume i: "idDB \<noteq> [] \<and> idOpt = idDB"
      and v: "idDB = X @ [clusterTenantSep] @ N \<and> clusterNameRegex_MatchString X
                  \<and> ParseUint N = Some n \<and> 2 \<le> n"
    have "clusterNameAndTenantFromParams h msg =
     Some (h\<lparr>maps := (maps h)(map_next h \<mapsto>
                 rangeParameters databaseName newOptionsParam (paramsOf h (Parameters m))),
             map_next := Suc (map_next h),
             msgs := (msgs h)(msg_next h \<mapsto>
                 \<lparr>ProtocolVersion = ProtocolVersion m, Parameters = Some (map_next h)\<rparr>),
             msg_next := Suc (msg_next h)\<rparr>,
           msg_next h, X, n, None)"
      using i v by (intro cnt_success [OF m db opt]) (auto simp: MinTenantID_def)
    then show "returned (clusterNameAndTenantFromParams h msg) = Some (X, n, None)"
      by (simp add: returned_def)
  qed
  show ?thesis using a b c1 c2 by blast
qed

theorem C4_placement_errors_witness:
  "clusterNameAndTenantFromParams (heapWith [''database'' \<mapsto> ''defaultdb'']) 0 =
     Some (heapWith [''database'' \<mapsto> ''defaultdb''], 0, [], MaxTenantID,
       Some (WithHint (errors_New ''missing cluster identifier'') clusterIdentifierHint))
   \<and> returned (clusterNameAndTenantFromParams
        (heapWith [''database'' \<mapsto> ''happy-koala-3.db'', ''options'' \<mapsto> ''--cluster=happy-koala-5'']) 0)
      = Some ([], MaxTenantID,
          Some \<lparr>message = ''multiple different cluster identifiers provided'',
                hints = [''Is '' @ quoted ''happy-koala-3'' @ '' or '' @ quoted ''happy-koala-5''
                           @ '' the identifier for the cluster that you're connecting to?'',
                         clusterIdentifierHint]\<rparr>)
   \<and> returned (clusterNameAndTenantFromParams
        (heapWith [''database'' \<mapsto> ''happy-koala-3.db'', ''options'' \<mapsto> ''--cluster=happy-koala-3'']) 0)
      = Some (''happy-koala'', 3, None)"
proof -
  let ?m = "\<lparr>ProtocolVersion = 196608, Parameters = Some 0\<rparr>"
  have p1: "msgParams (heapWith [''database'' \<mapsto> ''defaultdb'']) 0 = [''database'' \<mapsto> ''defaultdb'']"
    by (simp add: heapWith_def msgParams_def paramsOf_def)
  have d1: "parseDatabaseParam (mapIndex (msgParams (heapWith [''database'' \<mapsto> ''defaultdb'']) 0) ''database'')
      = ([], ''defaultdb'', None)"
    unfolding p1 by code_simp
  have o1: "parseOptionsParam (mapIndex (msgParams (heapWith [''database'' \<mapsto> ''defaultdb'']) 0) ''options'')
      = ([], [], None)"
    unfolding p1 by code_simp
  have 1: "clusterNameAndTenantFromParams (heapWith [''database'' \<mapsto> ''defaultdb'']) 0 =
     Some (heapWith [''database'' \<mapsto> ''defaultdb''], 0, [], MaxTenantID,
       Some (WithHint (errors_New ''missing cluster identifier'') clusterIdentifierHint))"
    using C4_placement_errors [OF _ d1 o1, of ?m] by (simp add: heapWith_def)
  let ?h2 = "heapWith [''database'' \<mapsto> ''happy-koala-3.db'', ''options'' \<mapsto> ''--cluster=happy-koala-5'']"
  have p2: "msgParams ?h2 0 = [''database'' \<mapsto> ''happy-koala-3.db'', ''options'' \<mapsto> ''--cluster=happy-koala-5'']"
    by (simp add: heapWith_def msgParams_def paramsOf_def)
  have d2: "parseDatabaseParam (mapIndex (msgParams ?h2 0) ''database'') = (''happy-koala-3'', ''db'', None)"
    unfolding p2 by code_simp
  have o2: "parseOptionsParam (mapIndex (msgParams ?h2 0) ''options'') = (''happy-koala-5'', [], None)"
    unfolding p2 by code_simp
  have 2: "returned (clusterNameAndTenantFromParams ?h2 0)
      = Some ([], MaxTenantID,
          Some \<lparr>message = ''multiple different cluster identifiers provided'',
                hints = [''Is '' @ quoted ''happy-koala-3'' @ '' or '' @ quoted ''happy-koala-5''
                           @ '' the identifier for the cluster that you're connecting to?'',
                         clusterIdentifierHint]\<rparr>)"
    using C4_placement_errors [OF _ d2 o2, of ?m]
    by (simp add: heapWith_def returned_def WithHint_def errors_New_def)
  let ?h3 = "heapWith [''database'' \<mapsto> ''happy-koala-3.db'', ''options'' \<mapsto> ''--cluster=happy-koala-3'']"
  have p3: "msgParams ?h3 0 = [''database'' \<mapsto> ''happy-koala-3.db'', ''options'' \<mapsto> ''--cluster=happy-koala-3'']"
    by (simp add: heapWith_def msgParams_def paramsOf_def)
  have d3: "parseDatabaseParam (mapIndex (msgParams ?h3 0) ''database'') = (''happy-koala-3'', ''db'', None)"
    unfolding p3 by code_simp
  have o3: "parseOptionsParam (mapIndex (msgParams ?h3 0) ''options'') = (''happy-koala-3'', [], None)"
    unfolding p3 by code_simp
  have m3: "msgs ?h3 0 = Some ?m" by (simp add: heapWith_def)
  have "\<forall>X N n. ''happy-koala-3'' = X @ [clusterTenantSep] @ N \<and> clusterNameRegex_MatchString X
                  \<and> ParseUint N = Some n \<and> 2 \<le> n
               \<longrightarrow> returned (clusterNameAndTenantFromParams ?h3 0) = Some (X, n, None)"
    using C4_placement_errors [OF m3 d3 o3] by blast
  from this [rule_format, of "''happy-koala''" "''3''" 3]
  have 3: "returned (clusterNameAndTenantFromParams ?h3 0) = Some (''happy-koala'', 3, None)"
    using name_happy_koala ParseUint_3 by (simp add: clusterTenantSep_def)
  show ?thesis using 1 2 3 by blast
qed

subsection \<open>Determinism, and what a second call does\<close>

lemma Split_not_Nil: "Split s sep \<noteq> []"
  by (induction s) (auto split: list.splits)

lemma Split_length:
  "sum_list (map length (Split s sep)) + length (Split s sep) = Suc (length s)"
proof (induction s)
  case Nil
  then show ?case by simp
next
  case (Cons c cs)
  then show ?case
    using Split_not_Nil [of cs sep] by (auto split: list.splits)
qed

lemma Split_no_sep: "sep \<notin> set s \<Longrightarrow> Split s sep = [s]"
  by (induction s) (auto split: list.splits)

lemma Split_parts_no_sep: "p \<in> set (Split s sep) \<Longrightarrow> sep \<notin> set p"
proof (induction s arbitrary: p)
  case Nil
  then show ?case by simp
next
  case (Cons c cs)
  then show ?case
    using Split_not_Nil [of cs sep] by (auto split: list.splits if_splits)
qed

lemma Split_single: "Split s sep = [p] \<Longrightarrow> p = s"
  by (induction s arbitrary: p) (auto simp: Split_not_Nil split: list.splits if_splits)

lemma parseDatabaseParam_shorter:
  assumes "parseDatabaseParam d = (ident, name, None)" and "ident \<noteq> []"
  shows "length name < length d"
proof -
  let ?parts = "Split d (CHR ''.'')"
  have len: "length ?parts = 2" and nm: "name = ?parts ! 1"
    using assms by (auto simp: parseDatabaseParam_def Let_def split: if_splits)
  then obtain a b where ab: "?parts = [a, b]"
    by (metis One_nat_def Suc_1 length_0_conv length_Suc_conv)
  have "sum_list (map length ?parts) + length ?parts = Suc (length d)"
    by (rule Split_length)
  then show ?thesis using ab nm by simp
qed

lemma parseDatabaseParam_name:
  assumes "parseDatabaseParam d = (ident, name, None)"
  shows "parseDatabaseParam name = ([], name, None)"
proof -
  have "CHR ''.'' \<notin> set name"
  proof (cases "d = []")
    case True
    then show ?thesis using assms by (simp add: parseDatabaseParam_def)
  next
    case False
    show ?thesis
    proof (cases "length (Split d (CHR ''.'')) \<le> 1")
      case True
      then obtain p where p: "Split d (CHR ''.'') = [p]"
        using Split_not_Nil [of d "CHR ''.''"]
        by (cases "Split d (CHR ''.'')") auto
      have "name = d" using assms False True by (simp add: parseDatabaseParam_def Let_def)
      moreover have "p = d" using p by (rule Split_single)
      moreover have "CHR ''.'' \<notin> set p" using Split_parts_no_sep [of p d] p by simp
      ultimately show ?thesis by simp
    next
      case F2: False
      then have nm: "name = Split d (CHR ''.'') ! 1" and "1 < length (Split d (CHR ''.''))"
        using assms False by (auto simp: parseDatabaseParam_def Let_def split: if_splits)
      then have "name \<in> set (Split d (CHR ''.''))" by simp
      then show ?thesis by (rule Split_parts_no_sep)
    qed
  qed
  then have "Split name (CHR ''.'') = [name]" by (rule Split_no_sep)
  then show ?thesis by (simp add: parseDatabaseParam_def)
qed
lemma HasPrefix_append: "HasPrefix s p \<Longrightarrow> length p = n \<Longrightarrow> s = p @ drop n s"
  by (metis HasPrefix_def append_take_drop_id)

lemma matchHere_prefix:
  assumes "matchHere s = Some (m, g)"
  shows "m \<noteq> [] \<and> (\<exists>rest. s = m @ rest)"
proof (cases "HasPrefix s ''-c''")
  case True
  define r where "r = dropWhile reSpace (drop 2 s)"
  define ws where "ws = takeWhile reSpace (drop 2 s)"
  have hp: "HasPrefix r ''cluster=''" and m: "m = ''-c'' @ ws @ ''cluster='' @ takeWhile (\<lambda>c. \<not> reSpace c) (drop 8 r)"
    using assms True by (auto simp: matchHere_def Let_def r_def ws_def split: if_splits)
  have 1: "s = ''-c'' @ drop 2 s" by (rule HasPrefix_append [OF True]) simp
  have 2: "drop 2 s = ws @ r" by (simp add: ws_def r_def)
  have 3: "r = ''cluster='' @ drop 8 r" by (rule HasPrefix_append [OF hp]) simp
  have 4: "drop 8 r = takeWhile (\<lambda>c. \<not> reSpace c) (drop 8 r) @ dropWhile (\<lambda>c. \<not> reSpace c) (drop 8 r)"
    by simp
  have "s = m @ dropWhile (\<lambda>c. \<not> reSpace c) (drop 8 r)"
    unfolding m using 1 2 3 4 by (metis append.assoc)
  then show ?thesis using m by blast
next
  case False
  then have hp: "HasPrefix s ''--cluster=''" and m: "m = ''--cluster='' @ takeWhile (\<lambda>c. \<not> reSpace c) (drop 10 s)"
    using assms by (auto simp: matchHere_def Let_def split: if_splits)
  have 1: "s = ''--cluster='' @ drop 10 s" by (rule HasPrefix_append [OF hp]) simp
  have 4: "drop 10 s = takeWhile (\<lambda>c. \<not> reSpace c) (drop 10 s) @ dropWhile (\<lambda>c. \<not> reSpace c) (drop 10 s)"
    by simp
  have "s = m @ dropWhile (\<lambda>c. \<not> reSpace c) (drop 10 s)"
    unfolding m using 1 4 by (metis append.assoc)
  then show ?thesis using m by blast
qed

lemma findFirst_split:
  "findFirst s = Some (before, m, g, rest) \<Longrightarrow> m \<noteq> [] \<and> s = before @ m @ rest"
proof (induction s arbitrary: before)
  case Nil
  then show ?case by simp
next
  case (Cons c cs)
  show ?case
  proof (cases "matchHere (c # cs)")
    case None
    then obtain b' where "findFirst cs = Some (b', m, g, rest)" and "before = c # b'"
      using Cons.prems by (auto split: option.splits)
    then show ?thesis using Cons.IH by auto
  next
    case (Some mg)
    then have mh: "matchHere (c # cs) = Some (m, g)" and b: "before = []"
      and r: "rest = drop (length m) (c # cs)"
      using Cons.prems by (auto split: prod.splits)
    obtain rest' where "m \<noteq> []" and "c # cs = m @ rest'"
      using matchHere_prefix [OF mh] by blast
    then show ?thesis using b r by auto
  qed
qed

lemma ReplaceAll_length_le: "length (ReplaceAll s old []) \<le> length s"
proof (induction s old "[] :: string" rule: ReplaceAll.induct)
  case (1 s old)
  show ?case
  proof (cases "old = [] \<or> s = []")
    case True
    then show ?thesis by (subst ReplaceAll.simps) auto
  next
    case False
    show ?thesis
    proof (cases "HasPrefix s old")
      case True
      then have "ReplaceAll s old [] = ReplaceAll (drop (length old) s) old []"
        using False by (subst ReplaceAll.simps) simp
      then show ?thesis using 1(1) [OF False True] by simp
    next
      case F: False
      then have "ReplaceAll s old [] = hd s # ReplaceAll (tl s) old []"
        using False by (subst ReplaceAll.simps) simp
      then show ?thesis using 1(2) [OF False F] False by (cases s) auto
    qed
  qed
qed

lemma ReplaceAll_length_less:
  assumes "old \<noteq> []"
  shows "length (ReplaceAll (before @ old @ rest) old []) < length (before @ old @ rest)"
proof (induction before)
  case Nil
  have "HasPrefix (old @ rest) old" by (simp add: HasPrefix_def)
  then have "ReplaceAll (old @ rest) old [] = ReplaceAll rest old []"
    using assms by (subst ReplaceAll.simps) simp
  then show ?case using ReplaceAll_length_le [of rest old] assms by (cases old) auto
next
  case (Cons c before)
  let ?s = "(c # before) @ old @ rest"
  show ?case
  proof (cases "HasPrefix ?s old")
    case True
    then have "ReplaceAll ?s old [] = ReplaceAll (drop (length old) ?s) old []"
      using assms by (subst ReplaceAll.simps) simp
    moreover have "length (ReplaceAll (drop (length old) ?s) old []) \<le> length (drop (length old) ?s)"
      by (rule ReplaceAll_length_le)
    ultimately show ?thesis using assms by (cases old) auto
  next
    case False
    then have "ReplaceAll ?s old [] = c # ReplaceAll (before @ old @ rest) old []"
      using assms by (subst ReplaceAll.simps) simp
    then show ?thesis using Cons.IH by simp
  qed
qed

lemma TrimLeftSpace_length: "length (TrimLeftSpace s) \<le> length s"
proof (induction s rule: TrimLeftSpace.induct)
  case (1 s)
  show ?case
  proof (cases "leadingSpace s = 0")
    case True
    then show ?thesis by (subst TrimLeftSpace.simps) simp
  next
    case False
    then have "TrimLeftSpace s = TrimLeftSpace (drop (leadingSpace s) s)"
      by (subst TrimLeftSpace.simps) simp
    then show ?thesis using 1 [OF False] by simp
  qed
qed

lemma TrimRightSpace_length: "length (TrimRightSpace s) \<le> length s"
proof (induction s rule: TrimRightSpace.induct)
  case (1 s)
  show ?case
  proof (cases "trailingSpace s = 0")
    case True
    then show ?thesis by (subst TrimRightSpace.simps) simp
  next
    case False
    then have "TrimRightSpace s = TrimRightSpace (take (length s - trailingSpace s) s)"
      by (subst TrimRightSpace.simps) simp
    then show ?thesis using 1 [OF False] by simp
  qed
qed

lemma TrimSpace_length: "length (TrimSpace s) \<le> length s"
  using TrimLeftSpace_length [of s] TrimRightSpace_length [of "TrimLeftSpace s"]
  by (simp add: TrimSpace_def)

lemma parseOptionsParam_cases:
  assumes "parseOptionsParam opts = (ident, new, None)"
  shows "(ident = [] \<and> new = opts \<and> FindAllStringSubmatch opts 2 = [])
       \<or> (ident \<noteq> [] \<and> length new < length opts)"
proof (cases "FindAllStringSubmatch opts 2")
  case Nil
  then show ?thesis using assms by (simp add: parseOptionsParam_def)
next
  case (Cons x xs)
  then have xs: "xs = []" using assms by (auto simp: parseOptionsParam_def Let_def split: if_splits)
  obtain before m g rest where ff: "findFirst opts = Some (before, m, g, rest)"
    and x: "x = [m, g]"
    using Cons by (auto simp: numeral_2_eq_2 split: option.splits)
  have id: "ident = g" "g \<noteq> []" "new = TrimSpace (ReplaceAll opts m [])"
    using assms Cons xs x by (auto simp: parseOptionsParam_def Let_def split: if_splits)
  have "m \<noteq> []" "opts = before @ m @ rest" using findFirst_split [OF ff] by auto
  then have "length (ReplaceAll opts m []) < length opts"
    using ReplaceAll_length_less [of m before rest] by simp
  then have "length new < length opts"
    using TrimSpace_length [of "ReplaceAll opts m []"] id by simp
  then show ?thesis using id by simp
qed
lemma cnt_deterministic:
  assumes m1: "msgs h1 msg1 = Some m1" and m2: "msgs h2 msg2 = Some m2"
    and ps: "paramsOf h1 (Parameters m1) = paramsOf h2 (Parameters m2)"
    and v: "ProtocolVersion m1 = ProtocolVersion m2"
  shows "returned (clusterNameAndTenantFromParams h1 msg1)
           = returned (clusterNameAndTenantFromParams h2 msg2)
       \<and> returnedParams (clusterNameAndTenantFromParams h1 msg1)
           = returnedParams (clusterNameAndTenantFromParams h2 msg2)
       \<and> returnedVersion (clusterNameAndTenantFromParams h1 msg1)
           = returnedVersion (clusterNameAndTenantFromParams h2 msg2)"
proof -
  obtain idDB databaseName ed where
    d1: "parseDatabaseParam (mapIndex (paramsOf h1 (Parameters m1)) ''database'')
          = (idDB, databaseName, ed)"
    by (cases "parseDatabaseParam (mapIndex (paramsOf h1 (Parameters m1)) ''database'')") auto
  obtain idOpt newOptionsParam eo where
    o1: "parseOptionsParam (mapIndex (paramsOf h1 (Parameters m1)) ''options'')
          = (idOpt, newOptionsParam, eo)"
    by (cases "parseOptionsParam (mapIndex (paramsOf h1 (Parameters m1)) ''options'')") auto
  note d2 = d1 [unfolded ps]
  note o2 = o1 [unfolded ps]
  define r1 where "r1 = clusterNameAndTenantFromParams h1 msg1"
  define r2 where "r2 = clusterNameAndTenantFromParams h2 msg2"
  note u1 = r1_def [unfolded clusterNameAndTenantFromParams_def m1 option.case Let_def d1 prod.case o1]
  note u2 = r2_def [unfolded clusterNameAndTenantFromParams_def m2 option.case Let_def d2 prod.case o2]
  have p1: "msgParams h1 msg1 = paramsOf h2 (Parameters m2)"
    using m1 ps by (simp add: msgParams_def)
  have p2: "msgParams h2 msg2 = paramsOf h2 (Parameters m2)"
    using m2 by (simp add: msgParams_def)
  have a: "returned r1 = returned r2"
    unfolding u1 u2
    by (simp add: returned_def newMap_def newMsg_def split: option.splits)
  have b: "returnedParams r1 = returnedParams r2"
    unfolding u1 u2
    by (simp add: returnedParams_def newMap_def newMsg_def p1 p2 ps msgParams_allocated
        split: option.splits)
  have c: "returnedVersion r1 = returnedVersion r2"
    unfolding u1 u2
    by (simp add: returnedVersion_def msgVersion_def newMap_def newMsg_def m1 m2 v
        split: option.splits)
  show ?thesis using a b c unfolding r1_def r2_def by blast
qed
lemma mapIndex_nonempty: "mapIndex ps k \<noteq> [] \<Longrightarrow> ps k = Some (mapIndex ps k)"
  by (auto simp: mapIndex_def split: option.splits)

lemma cnt_changes:
  assumes ok: "returned (clusterNameAndTenantFromParams h msg) = Some (name, tid, None)"
  shows "returnedParams (clusterNameAndTenantFromParams h msg) \<noteq> msgParams h msg"
proof -
  obtain h' out where r: "clusterNameAndTenantFromParams h msg = Some (h', out, name, tid, None)"
    using ok returned_Some by blast
  then obtain m where m: "msgs h msg = Some m" using cnt_defined by blast
  let ?ps = "paramsOf h (Parameters m)"
  obtain idDB databaseName idOpt newOptionsParam where
    d: "parseDatabaseParam (mapIndex ?ps ''database'') = (idDB, databaseName, None)" and
    o: "parseOptionsParam (mapIndex ?ps ''options'') = (idOpt, newOptionsParam, None)" and
    ne: "idDB \<noteq> [] \<or> idOpt \<noteq> []" and
    out: "out = msg_next h" and
    h': "h' = h\<lparr>maps := (maps h)(map_next h \<mapsto>
                 rangeParameters databaseName newOptionsParam ?ps),
             map_next := Suc (map_next h),
             msgs := (msgs h)(msg_next h \<mapsto>
                 \<lparr>ProtocolVersion = ProtocolVersion m, Parameters = Some (map_next h)\<rparr>),
             msg_next := Suc (msg_next h)\<rparr>"
    using cnt_ok [OF r m] by blast
  have rp: "returnedParams (clusterNameAndTenantFromParams h msg)
      = rangeParameters databaseName newOptionsParam ?ps"
    by (simp add: r returnedParams_def h' out msgParams_allocated)
  have mp: "msgParams h msg = ?ps" using m by (simp add: msgParams_def)
  show ?thesis
  proof (cases "idDB = []")
    case False
    then have "mapIndex ?ps ''database'' \<noteq> []"
      using d by (auto simp: parseDatabaseParam_def)
    then have k: "?ps ''database'' = Some (mapIndex ?ps ''database'')"
      by (rule mapIndex_nonempty)
    have "length databaseName < length (mapIndex ?ps ''database'')"
      using d False by (rule parseDatabaseParam_shorter)
    then have "databaseName \<noteq> mapIndex ?ps ''database''" by auto
    then have "rangeParameters databaseName newOptionsParam ?ps ''database'' \<noteq> ?ps ''database''"
      using k by (simp add: rangeParameters_def paramsOutEntry_def)
    then show ?thesis unfolding rp mp by metis
  next
    case True
    then have io: "idOpt \<noteq> []" using ne by simp
    then have lt: "length newOptionsParam < length (mapIndex ?ps ''options'')"
      using parseOptionsParam_cases [OF o] by simp
    then have "mapIndex ?ps ''options'' \<noteq> []" by auto
    then have k: "?ps ''options'' = Some (mapIndex ?ps ''options'')"
      by (rule mapIndex_nonempty)
    have "newOptionsParam \<noteq> mapIndex ?ps ''options''" using lt by auto
    then have "rangeParameters databaseName newOptionsParam ?ps ''options'' \<noteq> ?ps ''options''"
      using k by (simp add: rangeParameters_def paramsOutEntry_def)
    then show ?thesis unfolding rp mp by metis
  qed
qed

lemma cnt_reapply_missing:
  assumes ok: "returned (clusterNameAndTenantFromParams h msg) = Some (name, tid, None)"
    and noflag: "FindAllStringSubmatch (mapIndex (msgParams h msg) ''options'') 2 = []"
  shows "returned (reapply (clusterNameAndTenantFromParams h msg))
    = Some ([], MaxTenantID,
        Some (WithHint (errors_New ''missing cluster identifier'') clusterIdentifierHint))"
proof -
  obtain h' out where r: "clusterNameAndTenantFromParams h msg = Some (h', out, name, tid, None)"
    using ok returned_Some by blast
  then obtain m where m: "msgs h msg = Some m" using cnt_defined by blast
  let ?ps = "paramsOf h (Parameters m)"
  have mp: "msgParams h msg = ?ps" using m by (simp add: msgParams_def)
  obtain idDB databaseName idOpt newOptionsParam where
    d: "parseDatabaseParam (mapIndex ?ps ''database'') = (idDB, databaseName, None)" and
    o: "parseOptionsParam (mapIndex ?ps ''options'') = (idOpt, newOptionsParam, None)" and
    ne: "idDB \<noteq> [] \<or> idOpt \<noteq> []" and
    out: "out = msg_next h" and
    h': "h' = h\<lparr>maps := (maps h)(map_next h \<mapsto>
                 rangeParameters databaseName newOptionsParam ?ps),
             map_next := Suc (map_next h),
             msgs := (msgs h)(msg_next h \<mapsto>
                 \<lparr>ProtocolVersion = ProtocolVersion m, Parameters = Some (map_next h)\<rparr>),
             msg_next := Suc (msg_next h)\<rparr>"
    using cnt_ok [OF r m] by blast
  let ?m' = "\<lparr>ProtocolVersion = ProtocolVersion m, Parameters = Some (map_next h)\<rparr>"
  let ?ps' = "rangeParameters databaseName newOptionsParam ?ps"
  have o0: "parseOptionsParam (mapIndex ?ps ''options'') = ([], mapIndex ?ps ''options'', None)"
    using noflag by (simp add: parseOptionsParam_def mp)
  then have io: "idOpt = []" and no: "newOptionsParam = mapIndex ?ps ''options''"
    using o by simp_all
  then have idb: "idDB \<noteq> []" using ne by simp
  then have "mapIndex ?ps ''database'' \<noteq> []"
    using d by (auto simp: parseDatabaseParam_def)
  then have k: "?ps ''database'' = Some (mapIndex ?ps ''database'')"
    by (rule mapIndex_nonempty)
  have m': "msgs h' out = Some ?m'" by (simp add: h' out)
  have ps': "paramsOf h' (Parameters ?m') = ?ps'" by (simp add: h' paramsOf_def)
  obtain dv where dv: "?ps ''database'' = Some dv" using k by blast
  have i1: "mapIndex ?ps' ''database'' = databaseName"
    by (simp add: dv mapIndex_def rangeParameters_def paramsOutEntry_def)
  have i2: "mapIndex ?ps' ''options'' = mapIndex ?ps ''options''"
    by (simp add: mapIndex_def rangeParameters_def paramsOutEntry_def no split: option.splits)
  have d': "parseDatabaseParam (mapIndex (paramsOf h' (Parameters ?m')) ''database'')
      = ([], databaseName, None)"
    unfolding ps' i1 using d by (rule parseDatabaseParam_name)
  have o': "parseOptionsParam (mapIndex (paramsOf h' (Parameters ?m')) ''options'')
      = ([], mapIndex ?ps ''options'', None)"
    unfolding ps' i2 by (rule o0)
  have "clusterNameAndTenantFromParams h' out =
     Some (h', out, [], MaxTenantID,
       Some (WithHint (errors_New ''missing cluster identifier'') clusterIdentifierHint))"
    using m' d' o' by (rule cnt_missing)
  then show ?thesis by (simp add: r reapply_def returned_def)
qed

text \<open>
  C9 as stated fails: the parser is not idempotent. It succeeds on a message with
  \<^verbatim>\<open>database\<close> \<^verbatim>\<open>happy-koala-3.defaultdb\<close>, and called again on the message it
  returned it fails, since the identifier is gone.
\<close>

theorem C9_idempotent_counterexample:
  "returned (clusterNameAndTenantFromParams
       (heapWith [''database'' \<mapsto> ''happy-koala-3.defaultdb'']) 0)
     = Some (''happy-koala'', 3, None)
   \<and> returned (reapply (clusterNameAndTenantFromParams
       (heapWith [''database'' \<mapsto> ''happy-koala-3.defaultdb'']) 0))
     = Some ([], MaxTenantID,
         Some (WithHint (errors_New ''missing cluster identifier'') clusterIdentifierHint))"
  by code_simp

text \<open>
  C9, amended. The parser is deterministic: what it returns (cluster name, tenant id,
  error, and the protocol version and parameters of the returned message) depends on
  the contents of the message only, not on where the message lies or on what else the
  heap holds. It is not idempotent: a successful call always returns parameters that
  differ from the ones it received (the identifier it used is stripped), so a second
  call on the returned message never returns that message with the same cluster name
  and tenant id; and when the \<^verbatim>\<open>options\<close> of the first message held no cluster
  flag, the second call fails with \<^verbatim>\<open>missing cluster identifier\<close>.
\<close>

theorem C9_deterministic_not_idempotent:
  "(msgVersion h1 msg1 = msgVersion h2 msg2 \<and> msgVersion h1 msg1 \<noteq> None
      \<and> msgParams h1 msg1 = msgParams h2 msg2
    \<longrightarrow> returned (clusterNameAndTenantFromParams h1 msg1)
           = returned (clusterNameAndTenantFromParams h2 msg2)
       \<and> returnedParams (clusterNameAndTenantFromParams h1 msg1)
           = returnedParams (clusterNameAndTenantFromParams h2 msg2)
       \<and> returnedVersion (clusterNameAndTenantFromParams h1 msg1)
           = returnedVersion (clusterNameAndTenantFromParams h2 msg2))
   \<and> (returned (clusterNameAndTenantFromParams h msg) = Some (name, tid, None)
    \<longrightarrow> returnedParams (clusterNameAndTenantFromParams h msg) \<noteq> msgParams h msg
       \<and> \<not> (returned (reapply (clusterNameAndTenantFromParams h msg)) = Some (name, tid, None)
            \<and> returnedParams (reapply (clusterNameAndTenantFromParams h msg))
                = returnedParams (clusterNameAndTenantFromParams h msg))
       \<and> (FindAllStringSubmatch (mapIndex (msgParams h msg) ''options'') 2 = []
          \<longrightarrow> returned (reapply (clusterNameAndTenantFromParams h msg))
                = Some ([], MaxTenantID,
                    Some (WithHint (errors_New ''missing cluster identifier'')
                            clusterIdentifierHint))))"
proof (intro conjI impI)
  assume a: "msgVersion h1 msg1 = msgVersion h2 msg2 \<and> msgVersion h1 msg1 \<noteq> None
      \<and> msgParams h1 msg1 = msgParams h2 msg2"
  then obtain m1 m2 where m1: "msgs h1 msg1 = Some m1" and m2: "msgs h2 msg2 = Some m2"
    and v: "ProtocolVersion m1 = ProtocolVersion m2"
    by (auto simp: msgVersion_def split: option.splits)
  have ps: "paramsOf h1 (Parameters m1) = paramsOf h2 (Parameters m2)"
    using a m1 m2 by (simp add: msgParams_def)
  note det = cnt_deterministic [OF m1 m2 ps v]
  show "returned (clusterNameAndTenantFromParams h1 msg1)
           = returned (clusterNameAndTenantFromParams h2 msg2)" using det by blast
  show "returnedParams (clusterNameAndTenantFromParams h1 msg1)
           = returnedParams (clusterNameAndTenantFromParams h2 msg2)" using det by blast
  show "returnedVersion (clusterNameAndTenantFromParams h1 msg1)
           = returnedVersion (clusterNameAndTenantFromParams h2 msg2)" using det by blast
next
  assume ok: "returned (clusterNameAndTenantFromParams h msg) = Some (name, tid, None)"
  show "returnedParams (clusterNameAndTenantFromParams h msg) \<noteq> msgParams h msg"
    using ok by (rule cnt_changes)
  obtain h' out where r: "clusterNameAndTenantFromParams h msg = Some (h', out, name, tid, None)"
    using ok returned_Some by blast
  show "\<not> (returned (reapply (clusterNameAndTenantFromParams h msg)) = Some (name, tid, None)
            \<and> returnedParams (reapply (clusterNameAndTenantFromParams h msg))
                = returnedParams (clusterNameAndTenantFromParams h msg))"
  proof
    assume b: "returned (reapply (clusterNameAndTenantFromParams h msg)) = Some (name, tid, None)
            \<and> returnedParams (reapply (clusterNameAndTenantFromParams h msg))
                = returnedParams (clusterNameAndTenantFromParams h msg)"
    have re: "reapply (clusterNameAndTenantFromParams h msg) = clusterNameAndTenantFromParams h' out"
      by (simp add: r reapply_def)
    have "returnedParams (clusterNameAndTenantFromParams h' out) \<noteq> msgParams h' out"
      using b unfolding re by (intro cnt_changes) simp
    moreover have "returnedParams (clusterNameAndTenantFromParams h msg) = msgParams h' out"
      by (simp add: r returnedParams_def)
    ultimately show False using b unfolding re by simp
  qed
next
  assume ok: "returned (clusterNameAndTenantFromParams h msg) = Some (name, tid, None)"
    and nf: "FindAllStringSubmatch (mapIndex (msgParams h msg) ''options'') 2 = []"
  then show "returned (reapply (clusterNameAndTenantFromParams h msg))
                = Some ([], MaxTenantID,
                    Some (WithHint (errors_New ''missing cluster identifier'')
                            clusterIdentifierHint))"
    by (rule cnt_reapply_missing)
qed

theorem C9_deterministic_not_idempotent_witness:
  "returned (clusterNameAndTenantFromParams
       (heapWith [''database'' \<mapsto> ''defaultdb'',
                  ''options'' \<mapsto> ''-c--cluster=abcdef-2 cluster=abcdef-2'']) 0)
     = Some (''abcdef'', 2, None)
   \<and> returned (reapply (clusterNameAndTenantFromParams
       (heapWith [''database'' \<mapsto> ''defaultdb'',
                  ''options'' \<mapsto> ''-c--cluster=abcdef-2 cluster=abcdef-2'']) 0))
     = Some (''abcdef'', 2, None)
   \<and> returnedParams (reapply (clusterNameAndTenantFromParams
       (heapWith [''database'' \<mapsto> ''defaultdb'',
                  ''options'' \<mapsto> ''-c--cluster=abcdef-2 cluster=abcdef-2'']) 0))
     \<noteq> returnedParams (clusterNameAndTenantFromParams
       (heapWith [''database'' \<mapsto> ''defaultdb'',
                  ''options'' \<mapsto> ''-c--cluster=abcdef-2 cluster=abcdef-2'']) 0)"
proof -
  let ?h = "heapWith [''database'' \<mapsto> ''defaultdb'',
                  ''options'' \<mapsto> ''-c--cluster=abcdef-2 cluster=abcdef-2'']"
  have 1: "returned (clusterNameAndTenantFromParams ?h 0) = Some (''abcdef'', 2, None)"
    by code_simp
  have 2: "returned (reapply (clusterNameAndTenantFromParams ?h 0)) = Some (''abcdef'', 2, None)"
    by code_simp
  show ?thesis
    using 1 2 C9_deterministic_not_idempotent [of ?h 0 ?h 0 ?h 0 "''abcdef''" 2] by blast
qed

end
